theory Spec2Isabelle
  imports Complex_Main
begin

section \<open>Data model\<close>

text \<open>
  The documents the tracking server reads and writes, as the Mongoose schema of
  \<^verbatim>\<open>src/model/scheduledbus.model.js\<close> and the field accesses of
  \<^verbatim>\<open>src/index.js\<close> have them. An ObjectId is the string of its hex digits, a Date
  the number of milliseconds since the epoch, a JavaScript Number a real (no NaN, no
  rounding of doubles). A field that may be undefined or null is an \<open>option\<close>.
  Fields the server never reads (bus, driver, scheduleTime, comments, ...) are left out.
\<close>

type_synonym oid = string
type_synonym millis = int

record coords =
  lat :: "real option"
  lng :: "real option"

record BusStop =
  stop_id :: oid
  coordinates :: "coords option"

record Route =
  route_id :: oid
  origin :: "oid option"
  destination :: "oid option"
  stops :: "oid list option"
  totalDistance :: "real option"

record location =
  latitude :: "real option"
  longitude :: "real option"
  lastUpdated :: "millis option"

record leftAtEntry =
  stop :: oid
  time :: millis

record ScheduledBus =
  sb_id :: oid
  route :: "oid option"
  createdAt :: millis
  distanceTraveled :: "real option"
  distanceRemaining :: "real option"
  speed :: "real option"
  journeyCompletion :: "real option"
  leftAt :: "leftAtEntry list"
  status :: string
  location :: location

text \<open>
  The document store: three collections, each in its natural (insertion) order.
\<close>

record store =
  scheduledBuses :: "ScheduledBus list"
  routeDocs :: "Route list"
  busStops :: "BusStop list"

text \<open>
  The module \<^verbatim>\<open>./utils/time.js\<close> exports \<^verbatim>\<open>haversineDistance\<close> and
  \<^verbatim>\<open>calculateSpeed\<close>; its text is not among the sources, so the two functions are
  parameters of the model. \<^verbatim>\<open>calculateSpeed\<close> is called with five arguments and no
  current time, so it reads the clock itself: the clock reading is its first argument
  here. \<open>None\<close> is the \<^verbatim>\<open>null\<close> the caller tests for.
\<close>

record time_utils =
  haversineDistance :: "real \<Rightarrow> real \<Rightarrow> real \<Rightarrow> real \<Rightarrow> real"
  calculateSpeed ::
    "millis \<Rightarrow> real option \<Rightarrow> real option \<Rightarrow> millis option \<Rightarrow> real \<Rightarrow> real \<Rightarrow> real option"

text \<open>
  A latitude or longitude as a message carries it and the handler passes it on: a JSON
  number, or a value that is present and not a number (null, a string, ...). A key that
  is missing (\<^verbatim>\<open>undefined\<close>) is \<open>None\<close> of the option around it.
\<close>

datatype coordinate = Number real | NonNumber

section \<open>JavaScript and store primitives\<close>

text \<open>\<^verbatim>\<open>!x\<close> for a Number that may be missing: true for undefined, null and 0.\<close>

definition falsy_num :: "real option \<Rightarrow> bool" where
  "falsy_num x = (case x of None \<Rightarrow> True | Some v \<Rightarrow> v = 0)"

text \<open>\<^verbatim>\<open>!s\<close> for a string that may be missing: true for undefined, null and the empty string.\<close>

definition falsy_str :: "string option \<Rightarrow> bool" where
  "falsy_str s = (case s of None \<Rightarrow> True | Some v \<Rightarrow> v = [])"

text \<open>
  \<^verbatim>\<open>x.toFixed(2)\<close> followed by the schema's cast of the string back to a Number: the
  multiple of 1/100 nearest to \<open>x\<close>, the larger in magnitude on a tie. That is what
  \<^verbatim>\<open>toFixed\<close> does with the exact value of its double. A real need not be a double:
  the double written \<^verbatim>\<open>1.005\<close> lies below 1.005 and gives \<^verbatim>\<open>"1.00"\<close>, where the
  real 1.005 gives 1.01. The two agree on the bounds 0 and 100, which are doubles and
  multiples of 1/100.
\<close>

definition toFixed2 :: "real \<Rightarrow> real" where
  "toFixed2 x =
     (if x < 0 then - (of_int \<lfloor>(- x) * 100 + 1 / 2\<rfloor> / 100)
      else of_int \<lfloor>x * 100 + 1 / 2\<rfloor> / 100)"

text \<open>\<^verbatim>\<open>ScheduledBus.findById(id)\<close>.\<close>

definition findById :: "store \<Rightarrow> oid \<Rightarrow> ScheduledBus option" where
  "findById db i = find (\<lambda>b. sb_id b = i) (scheduledBuses db)"

text \<open>
  \<^verbatim>\<open>populate\<close> of a reference: the referenced document, or null when the reference is
  unset or dangling.
\<close>

definition populate_route :: "store \<Rightarrow> oid option \<Rightarrow> Route option" where
  "populate_route db r =
     (case r of None \<Rightarrow> None | Some i \<Rightarrow> find (\<lambda>x. route_id x = i) (routeDocs db))"

definition populate_stop :: "store \<Rightarrow> oid option \<Rightarrow> BusStop option" where
  "populate_stop db r =
     (case r of None \<Rightarrow> None | Some i \<Rightarrow> find (\<lambda>x. stop_id x = i) (busStops db))"

text \<open>\<^verbatim>\<open>BusStop.find({ _id: { $in: ids } })\<close>: the matching stops in the collection's order.\<close>

definition BusStop_find :: "store \<Rightarrow> oid list \<Rightarrow> BusStop list" where
  "BusStop_find db ids = filter (\<lambda>s. stop_id s \<in> set ids) (busStops db)"

text \<open>
  The checks \<^verbatim>\<open>!s.coordinates || !s.coordinates.lat || !s.coordinates.lng\<close>: the pair
  of coordinates when all three are truthy.
\<close>

definition truthy_coordinates :: "BusStop \<Rightarrow> (real \<times> real) option" where
  "truthy_coordinates s =
     (case coordinates s of
        None \<Rightarrow> None
      | Some c \<Rightarrow>
          (case (lat c, lng c) of
             (Some a, Some b) \<Rightarrow> if a = 0 \<or> b = 0 then None else Some (a, b)
           | _ \<Rightarrow> None))"

text \<open>
  \<^verbatim>\<open>Array.prototype.find\<close>, \<^verbatim>\<open>some\<close> and \<^verbatim>\<open>filter\<close> with a callback that may
  throw: the elements are visited in order, \<^verbatim>\<open>find\<close> and \<^verbatim>\<open>some\<close> stop at the first
  element the callback accepts, and an error thrown by the callback ends the call.
\<close>

fun array_find :: "('a \<Rightarrow> string + bool) \<Rightarrow> 'a list \<Rightarrow> string + 'a option" where
  "array_find f [] = Inr None"
| "array_find f (x # xs) =
     (case f x of
        Inl e \<Rightarrow> Inl e
      | Inr accepted \<Rightarrow> if accepted then Inr (Some x) else array_find f xs)"

fun array_some :: "('a \<Rightarrow> string + bool) \<Rightarrow> 'a list \<Rightarrow> string + bool" where
  "array_some f [] = Inr False"
| "array_some f (x # xs) =
     (case f x of
        Inl e \<Rightarrow> Inl e
      | Inr accepted \<Rightarrow> if accepted then Inr True else array_some f xs)"

fun array_filter :: "('a \<Rightarrow> string + bool) \<Rightarrow> 'a list \<Rightarrow> string + 'a list" where
  "array_filter f [] = Inr []"
| "array_filter f (x # xs) =
     (case f x of
        Inl e \<Rightarrow> Inl e
      | Inr accepted \<Rightarrow>
          (case array_filter f xs of
             Inl e \<Rightarrow> Inl e
           | Inr kept \<Rightarrow> Inr (if accepted then x # kept else kept)))"

section \<open>updateBusLocation of src/index.js\<close>

text \<open>The object \<^verbatim>\<open>updateFields\<close>: the keys of the \<^verbatim>\<open>$set\<close>. The key
  \<^verbatim>\<open>speed\<close> is present only when the speed estimate is not null.\<close>

record updateFields =
  set_latitude :: real
  set_longitude :: real
  set_lastUpdated :: millis
  set_distanceTraveled :: real
  set_distanceRemaining :: real
  set_journeyCompletion :: real
  set_speed :: "real option"

text \<open>
  Lines 137 to 173 of \<^verbatim>\<open>src/index.js\<close>: the derived metrics and the assembled
  \<^verbatim>\<open>updateFields\<close>, from the trip's stored location, the populated origin and
  destination coordinates and the route's total distance.
\<close>

definition assemble_updateFields ::
  "time_utils \<Rightarrow> millis \<Rightarrow> location \<Rightarrow> real \<times> real \<Rightarrow> real \<times> real \<Rightarrow> real \<Rightarrow> real \<Rightarrow> real
     \<Rightarrow> updateFields" where
  "assemble_updateFields U now loc org dst totalDist curLat curLng =
     (let prevLat = latitude loc;
          prevLng = longitude loc;
          prevTimestamp = lastUpdated loc;
          distanceFromOrigin = haversineDistance U (fst org) (snd org) curLat curLng;
          remainingDistance0 = haversineDistance U curLat curLng (fst dst) (snd dst);
          completionPercentage0 = (distanceFromOrigin / totalDist) * 100;
          remainingDistance = max remainingDistance0 0;
          completionPercentage = max 0 (min completionPercentage0 100);
          spd = calculateSpeed U now prevLat prevLng prevTimestamp curLat curLng
      in \<lparr> set_latitude = curLat,
           set_longitude = curLng,
           set_lastUpdated = now,
           set_distanceTraveled = toFixed2 distanceFromOrigin,
           set_distanceRemaining = toFixed2 remainingDistance,
           set_journeyCompletion = toFixed2 completionPercentage,
           set_speed = spd \<rparr>)"

text \<open>
  Lines 100 to 131: the lookups and guards, each \<^verbatim>\<open>throw new Error(m)\<close> as
  \<open>Inl m\<close>. None of them reads the coordinates passed in. When all pass: the trip, the
  coordinates of the origin and of the destination, the total distance and the stops
  found for the route.
\<close>

definition updateBusLocation_checked ::
  "store \<Rightarrow> oid \<Rightarrow> string + (ScheduledBus \<times> (real \<times> real) \<times> (real \<times> real) \<times> real \<times> BusStop list)" where
  "updateBusLocation_checked db scheduledBusId =
     (case findById db scheduledBusId of
        None \<Rightarrow> Inl ''Scheduled bus not found''
      | Some scheduledBus \<Rightarrow>
          (case populate_route db (route scheduledBus) of
             None \<Rightarrow> Inl ''Route data is invalid or missing required details''
           | Some rt \<Rightarrow>
               (case (populate_stop db (origin rt), populate_stop db (destination rt), stops rt) of
                  (Some org, Some dst, Some stopRefs) \<Rightarrow>
                    (case totalDistance rt of
                       None \<Rightarrow> Inl ''Route data is invalid or missing required details''
                     | Some totalDist \<Rightarrow>
                         if totalDist = 0 then Inl ''Route data is invalid or missing required details''
                         else
                           (let stopDocs = BusStop_find db stopRefs in
                            if stopDocs = [] then Inl ''No stops found for this route''
                            else
                              (case truthy_coordinates org of
                                 None \<Rightarrow> Inl ''Origin coordinates are missing or invalid''
                               | Some orgC \<Rightarrow>
                                   (case truthy_coordinates dst of
                                      None \<Rightarrow> Inl ''Destination coordinates are missing or invalid''
                                    | Some dstC \<Rightarrow>
                                        Inr (scheduledBus, orgC, dstC, totalDist, stopDocs)))))
                | _ \<Rightarrow> Inl ''Route data is invalid or missing required details'')))"

text \<open>
  Lines 100 to 173, for coordinates that are numbers: the guards, then the assembled
  \<^verbatim>\<open>updateFields\<close> together with the stops found for the route.
\<close>

definition updateBusLocation_fields ::
  "time_utils \<Rightarrow> millis \<Rightarrow> store \<Rightarrow> oid \<Rightarrow> real \<Rightarrow> real \<Rightarrow> string + (updateFields \<times> BusStop list)" where
  "updateBusLocation_fields U now db scheduledBusId curLat curLng =
     (case updateBusLocation_checked db scheduledBusId of
        Inl m \<Rightarrow> Inl m
      | Inr (scheduledBus, orgC, dstC, totalDist, stopDocs) \<Rightarrow>
          Inr (assemble_updateFields U now (location scheduledBus)
                 orgC dstC totalDist curLat curLng, stopDocs))"

text \<open>
  The \<^verbatim>\<open>try\<close> block. After \<^verbatim>\<open>updateFields\<close> is assembled, line 177 evaluates
  \<^verbatim>\<open>busData.leftAt\<close>. No import, declaration or parameter of the module binds
  \<^verbatim>\<open>busData\<close> (the module binds WebSocketServer, express, http, ScheduledBus,
  haversineDistance, calculateSpeed, dotenv, BusStop, connectDB, app, server, wss, PORT and
  updateBusLocation; the function binds its three parameters and the constants declared
  above line 177), so the read throws a ReferenceError. Lines 182 to 207, the stop search,
  the write (which in turn reads the equally unbound \<^verbatim>\<open>passedStops\<close>) and the
  \<^verbatim>\<open>return\<close>, are never reached. \<open>Inr\<close> would be the returned document and the store after the
  write.
\<close>

definition updateBusLocation_try ::
  "time_utils \<Rightarrow> millis \<Rightarrow> store \<Rightarrow> oid \<Rightarrow> real \<Rightarrow> real \<Rightarrow> string + (ScheduledBus option \<times> store)" where
  "updateBusLocation_try U now db scheduledBusId curLat curLng =
     (case updateBusLocation_fields U now db scheduledBusId curLat curLng of
        Inl m \<Rightarrow> Inl m
      | Inr (updateFields, stopDocs) \<Rightarrow> Inl ''busData is not defined'')"

text \<open>
  The whole function: the \<^verbatim>\<open>catch\<close> logs the message of whatever was thrown and
  throws \<^verbatim>\<open>new Error("Error updating bus location")\<close> in its place. The result is the
  logged lines, the returned document (or null) or the message of the error thrown to the caller,
  and the store afterwards.
\<close>

record 'a outcome =
  logged :: "string list"
  result :: "string + 'a"
  store_after :: store

definition catch_rethrow ::
  "store \<Rightarrow> (string + (ScheduledBus option \<times> store)) \<Rightarrow> ScheduledBus option outcome" where
  "catch_rethrow db r =
     (case r of
        Inl m \<Rightarrow> \<lparr> logged = [m], result = Inl ''Error updating bus location'', store_after = db \<rparr>
      | Inr (updatedBus, db') \<Rightarrow> \<lparr> logged = [], result = Inr updatedBus, store_after = db' \<rparr>)"

definition updateBusLocation ::
  "time_utils \<Rightarrow> millis \<Rightarrow> store \<Rightarrow> oid \<Rightarrow> real \<Rightarrow> real \<Rightarrow> ScheduledBus option outcome" where
  "updateBusLocation U now db scheduledBusId curLat curLng =
     catch_rethrow db (updateBusLocation_try U now db scheduledBusId curLat curLng)"

text \<open>
  The same function called with a coordinate that is not a number. The guards pass or
  fail as before; past them the distance functions are handed the value, and whether
  they return or throw, the \<^verbatim>\<open>try\<close> block ends in a thrown error, at the latest at
  line 177, whose message is the one logged here.
\<close>

definition updateBusLocation_nonNumber ::
  "store \<Rightarrow> oid \<Rightarrow> coordinate \<Rightarrow> coordinate \<Rightarrow> ScheduledBus option outcome" where
  "updateBusLocation_nonNumber db scheduledBusId latitude_in longitude_in =
     catch_rethrow db
       (case updateBusLocation_checked db scheduledBusId of
          Inl m \<Rightarrow> Inl m
        | Inr checked \<Rightarrow> Inl ''busData is not defined'')"

text \<open>
  A version of \<^verbatim>\<open>updateBusLocation\<close> as the handler calls it, with whatever the
  message carried: \<open>f\<close> when both coordinates are numbers, \<open>other\<close> when one is not.
\<close>

definition for_numbers ::
  "(store \<Rightarrow> oid \<Rightarrow> coordinate \<Rightarrow> coordinate \<Rightarrow> ScheduledBus option outcome)
     \<Rightarrow> (store \<Rightarrow> oid \<Rightarrow> real \<Rightarrow> real \<Rightarrow> ScheduledBus option outcome)
     \<Rightarrow> store \<Rightarrow> oid \<Rightarrow> coordinate \<Rightarrow> coordinate \<Rightarrow> ScheduledBus option outcome" where
  "for_numbers other f db scheduledBusId latitude_in longitude_in =
     (case (latitude_in, longitude_in) of
        (Number curLat, Number curLng) \<Rightarrow> f db scheduledBusId curLat curLng
      | _ \<Rightarrow> other db scheduledBusId latitude_in longitude_in)"

definition updateBusLocation_received ::
  "time_utils \<Rightarrow> millis \<Rightarrow> store \<Rightarrow> oid \<Rightarrow> coordinate \<Rightarrow> coordinate \<Rightarrow> ScheduledBus option outcome" where
  "updateBusLocation_received U now =
     for_numbers updateBusLocation_nonNumber (updateBusLocation U now)"

section \<open>The store's write\<close>

text \<open>
  \<^verbatim>\<open>$set\<close> of the keys of \<^verbatim>\<open>updateFields\<close> on a trip: the three location keys and
  the three progress keys are always set; \<^verbatim>\<open>speed\<close> only when the key is present.
  \<^verbatim>\<open>findByIdAndUpdate\<close> is called without \<^verbatim>\<open>runValidators\<close>, so the schema's
  \<^verbatim>\<open>min\<close> and \<^verbatim>\<open>max\<close> of latitude and longitude are not checked at this write.
\<close>

definition apply_set :: "updateFields \<Rightarrow> ScheduledBus \<Rightarrow> ScheduledBus" where
  "apply_set uf b =
     b \<lparr> location := \<lparr> latitude = Some (set_latitude uf),
                        longitude = Some (set_longitude uf),
                        lastUpdated = Some (set_lastUpdated uf) \<rparr>,
         distanceTraveled := Some (set_distanceTraveled uf),
         distanceRemaining := Some (set_distanceRemaining uf),
         journeyCompletion := Some (set_journeyCompletion uf),
         speed := (case set_speed uf of None \<Rightarrow> speed b | Some v \<Rightarrow> Some v) \<rparr>"

text \<open>The first document with the given identifier is replaced.\<close>

fun replace_first :: "oid \<Rightarrow> (ScheduledBus \<Rightarrow> ScheduledBus) \<Rightarrow> ScheduledBus list \<Rightarrow> ScheduledBus list" where
  "replace_first i f [] = []"
| "replace_first i f (b # bs) = (if sb_id b = i then f b # bs else b # replace_first i f bs)"

text \<open>
  \<^verbatim>\<open>ScheduledBus.findByIdAndUpdate(id, update, { new: true })\<close>: one atomic
  find-and-modify of the store. Either the call rejects and nothing is stored
  (\<open>writeOk\<close> false: the store is unreachable or refuses), or the update is applied to
  the stored document and the updated document is returned (null when no document has
  the identifier).
\<close>

definition findByIdAndUpdate ::
  "bool \<Rightarrow> store \<Rightarrow> oid \<Rightarrow> (ScheduledBus \<Rightarrow> ScheduledBus) \<Rightarrow> string + (ScheduledBus option \<times> store)" where
  "findByIdAndUpdate writeOk db i f =
     (if \<not> writeOk then Inl ''store write failed''
      else
        (case findById db i of
           None \<Rightarrow> Inr (None, db)
         | Some b \<Rightarrow> Inr (Some (f b), db \<lparr> scheduledBuses := replace_first i f (scheduledBuses db) \<rparr>)))"

section \<open>updateBusLocation of the first draft (src/unnamed/part\_000, lines 98 to 183)\<close>

text \<open>
  The draft whose stop-passage section runs: it reads \<^verbatim>\<open>leftAt\<close> from the trip, pushes
  at most one entry and writes the whole array back with the other keys.

  \<^verbatim>\<open>route.origin.coordinates.lat\<close> and the like are read without a check: reading
  \<^verbatim>\<open>lat\<close> of missing coordinates throws a TypeError.
\<close>

definition unchecked_coordinates :: "BusStop \<Rightarrow> string + coords" where
  "unchecked_coordinates s =
     (case coordinates s of None \<Rightarrow> Inl ''TypeError'' | Some c \<Rightarrow> Inr c)"

text \<open>
  The callback \<^verbatim>\<open>stop => haversineDistance(latitude, longitude, stop.coordinates.lat,
  stop.coordinates.lng) < THRESHOLD_DISTANCE\<close>. A stop without coordinates throws a
  TypeError; with a missing \<^verbatim>\<open>lat\<close> or \<^verbatim>\<open>lng\<close> the distance is NaN and the
  comparison false.
\<close>

definition withinThreshold :: "time_utils \<Rightarrow> real \<Rightarrow> real \<Rightarrow> real \<Rightarrow> BusStop \<Rightarrow> string + bool" where
  "withinThreshold U threshold curLat curLng s =
     (case coordinates s of
        None \<Rightarrow> Inl ''TypeError''
      | Some c \<Rightarrow>
          (case (lat c, lng c) of
             (Some a, Some b) \<Rightarrow> Inr (haversineDistance U curLat curLng a b < threshold)
           | _ \<Rightarrow> Inr False))"

text \<open>
  Lines 145 to 157: when \<^verbatim>\<open>stops.find\<close> returned a stop and no entry of \<^verbatim>\<open>leftAt\<close>
  refers to it, one entry with the current time is pushed.
\<close>

definition record_passage :: "millis \<Rightarrow> leftAtEntry list \<Rightarrow> BusStop option \<Rightarrow> leftAtEntry list" where
  "record_passage now entries passedStop =
     (case passedStop of
        None \<Rightarrow> entries
      | Some p \<Rightarrow>
          if list_ex (\<lambda>e. stop e = stop_id p) entries then entries
          else entries @ [\<lparr> stop = stop_id p, time = now \<rparr>])"

definition THRESHOLD_DISTANCE_draft1 :: real where
  "THRESHOLD_DISTANCE_draft1 = 0.01"

text \<open>
  The \<^verbatim>\<open>try\<close> block up to the assembled \<^verbatim>\<open>updateFields\<close> (lines 100 to 170). The
  result holds the keys shared with \<^verbatim>\<open>src/index.js\<close>, the new value of the key
  \<^verbatim>\<open>leftAt\<close>, and the local \<^verbatim>\<open>passedStop\<close>. When a \<^verbatim>\<open>lat\<close> or \<^verbatim>\<open>lng\<close> of the
  origin or the destination is missing, the distance computed from it is NaN,
  \<^verbatim>\<open>toFixed\<close> gives the string \<^verbatim>\<open>"NaN"\<close>, and the write rejects the update when it
  casts that string to a Number, before anything is stored: the last error of the block.
\<close>

definition updateBusLocation_draft1_fields ::
  "time_utils \<Rightarrow> millis \<Rightarrow> store \<Rightarrow> oid \<Rightarrow> real \<Rightarrow> real
     \<Rightarrow> string + (updateFields \<times> leftAtEntry list \<times> BusStop option)" where
  "updateBusLocation_draft1_fields U now db scheduledBusId curLat curLng =
     (case findById db scheduledBusId of
        None \<Rightarrow> Inl ''Scheduled bus not found''
      | Some scheduledBus \<Rightarrow>
          (case populate_route db (route scheduledBus) of
             None \<Rightarrow> Inl ''Route data is invalid or missing required details''
           | Some rt \<Rightarrow>
               (case (populate_stop db (origin rt), populate_stop db (destination rt), stops rt) of
                  (Some org, Some dst, Some stopRefs) \<Rightarrow>
                    (case totalDistance rt of
                       None \<Rightarrow> Inl ''Route data is invalid or missing required details''
                     | Some totalDist \<Rightarrow>
                         if totalDist = 0 then Inl ''Route data is invalid or missing required details''
                         else
                           (let stopDocs = BusStop_find db stopRefs in
                            if stopDocs = [] then Inl ''No stops found for this route''
                            else
                              (case unchecked_coordinates org of
                                 Inl e \<Rightarrow> Inl e
                               | Inr orgC \<Rightarrow>
                                   (case unchecked_coordinates dst of
                                      Inl e \<Rightarrow> Inl e
                                    | Inr dstC \<Rightarrow>
                                        (case array_find
                                                (withinThreshold U THRESHOLD_DISTANCE_draft1 curLat curLng)
                                                stopDocs of
                                           Inl e \<Rightarrow> Inl e
                                         | Inr passedStop \<Rightarrow>
                                             (case (lat orgC, lng orgC, lat dstC, lng dstC) of
                                                (Some oLat, Some oLng, Some dLat, Some dLng) \<Rightarrow>
                                                  Inr (assemble_updateFields U now
                                                         (location scheduledBus) (oLat, oLng)
                                                         (dLat, dLng) totalDist curLat curLng,
                                                       record_passage now (leftAt scheduledBus)
                                                         passedStop,
                                                       passedStop)
                                              | _ \<Rightarrow> Inl ''CastError''))))))
                | _ \<Rightarrow> Inl ''Route data is invalid or missing required details'')))"

text \<open>
  The write of lines 172 to 176 and the \<^verbatim>\<open>return\<close>; then the same \<^verbatim>\<open>catch\<close> as in
  \<^verbatim>\<open>src/index.js\<close>. The returned document is null when the write finds no document.
\<close>

definition updateBusLocation_draft1_try ::
  "time_utils \<Rightarrow> millis \<Rightarrow> bool \<Rightarrow> store \<Rightarrow> oid \<Rightarrow> real \<Rightarrow> real
     \<Rightarrow> string + (ScheduledBus option \<times> store)" where
  "updateBusLocation_draft1_try U now writeOk db scheduledBusId curLat curLng =
     (case updateBusLocation_draft1_fields U now db scheduledBusId curLat curLng of
        Inl m \<Rightarrow> Inl m
      | Inr (uf, newLeftAt, passedStop) \<Rightarrow>
          findByIdAndUpdate writeOk db scheduledBusId
            (\<lambda>b. (apply_set uf b) \<lparr> leftAt := newLeftAt \<rparr>))"

definition updateBusLocation_draft1 ::
  "time_utils \<Rightarrow> millis \<Rightarrow> bool \<Rightarrow> store \<Rightarrow> oid \<Rightarrow> real \<Rightarrow> real \<Rightarrow> ScheduledBus option outcome" where
  "updateBusLocation_draft1 U now writeOk db scheduledBusId curLat curLng =
     catch_rethrow db (updateBusLocation_draft1_try U now writeOk db scheduledBusId curLat curLng)"

text \<open>
  What the first draft does with a coordinate that is not a number depends on what
  \<^verbatim>\<open>haversineDistance\<close> and \<^verbatim>\<open>calculateSpeed\<close> make of it, which their missing
  text decides. As the handler calls it, the draft is
  \<open>for_numbers other (updateBusLocation_draft1 U now writeOk)\<close>, with \<open>other\<close> standing
  for that behaviour.
\<close>

section \<open>The message handler\<close>

text \<open>
  A message after \<^verbatim>\<open>JSON.parse\<close>: text that does not parse (or parses to null), an
  object whose \<^verbatim>\<open>type\<close> is \<^verbatim>\<open>"locationUpdate"\<close> (with the fields scheduledBusId,
  latitude and longitude, each possibly missing), one whose \<^verbatim>\<open>type\<close> is
  \<^verbatim>\<open>"busStopRequest"\<close> (busStopId and the optional list of statuses), or an object
  of any other type.
\<close>

datatype message =
  Unparseable
| LocationUpdate "string option" "coordinate option" "coordinate option"
| BusStopRequest "string option" "string list option"
| OtherType

text \<open>
  What the handler sends: \<^verbatim>\<open>{ error: m }\<close> to the sender, \<^verbatim>\<open>{ type: "busUpdate",
  buses }\<close> to every open client, \<^verbatim>\<open>{ type: "busStopResponse", buses }\<close> to the
  sender, or nothing.
\<close>

datatype sent =
  ErrorReply string
| BusUpdate "ScheduledBus list"
| BusStopResponse "ScheduledBus list"
| Nothing

text \<open>
  Modelled from the spec: the \<^verbatim>\<open>paginate\<close> plugin of the schema
  (\<^verbatim>\<open>src/model/plugins\<close> is not among the sources). With an empty filter and
  \<^verbatim>\<open>sortBy: 'createdAt:asc'\<close> its \<^verbatim>\<open>results\<close> are the trips ordered by creation time
  ascending, cut to the page of the given size.
\<close>

definition paginate :: "store \<Rightarrow> nat \<Rightarrow> nat \<Rightarrow> ScheduledBus list" where
  "paginate db page limit =
     take limit (drop ((page - 1) * limit) (sort_key createdAt (scheduledBuses db)))"

text \<open>
  The callback of \<^verbatim>\<open>schedules.results.filter\<close>:
  \<^verbatim>\<open>schedule.route.stops.some((stop) => stop.stopId._id.toString() === busStopId)\<close> over
  the populated route and stop references. A route that populated to null, a route
  without \<^verbatim>\<open>stops\<close> and a stop reference that populated to null throw a TypeError
  when they are read.
\<close>

definition servesStop :: "store \<Rightarrow> oid \<Rightarrow> ScheduledBus \<Rightarrow> string + bool" where
  "servesStop db busStopId schedule =
     (case populate_route db (route schedule) of
        None \<Rightarrow> Inl ''TypeError''
      | Some rt \<Rightarrow>
          (case stops rt of
             None \<Rightarrow> Inl ''TypeError''
           | Some refs \<Rightarrow>
               array_some
                 (\<lambda>r. case populate_stop db (Some r) of
                        None \<Rightarrow> Inl ''TypeError''
                      | Some s \<Rightarrow> Inr (stop_id s = busStopId))
                 refs))"

text \<open>\<^verbatim>\<open>if (status && status.length > 0) schedules = schedules.filter(...)\<close>.\<close>

definition filter_by_status :: "string list option \<Rightarrow> ScheduledBus list \<Rightarrow> ScheduledBus list" where
  "filter_by_status st schedules =
     (case st of
        None \<Rightarrow> schedules
      | Some wanted \<Rightarrow>
          if wanted = [] then schedules else filter (\<lambda>s. status s \<in> set wanted) schedules)"

text \<open>
  The handler of \<^verbatim>\<open>ws.on("message", ...)\<close>, the same text in every version of the
  module. \<open>upd\<close> is the module's \<^verbatim>\<open>updateBusLocation\<close>, called with the
  coordinates as received: the check of line 27 turns away only a scheduledBusId that is
  falsy and a coordinate that is \<^verbatim>\<open>undefined\<close>. The result is what is sent and
  the store afterwards; the outer \<^verbatim>\<open>catch\<close> answers every thrown error with
  \<^verbatim>\<open>{ error: "Failed to process request" }\<close>. The page and its size are the literals
  1 and 10 of the \<^verbatim>\<open>options\<close> object.
\<close>

fun on_message ::
  "(store \<Rightarrow> oid \<Rightarrow> coordinate \<Rightarrow> coordinate \<Rightarrow> ScheduledBus option outcome)
     \<Rightarrow> store \<Rightarrow> message \<Rightarrow> sent \<times> store" where
  "on_message upd db Unparseable = (ErrorReply ''Failed to process request'', db)"
| "on_message upd db (LocationUpdate (Some scheduledBusId) (Some latitude_in) (Some longitude_in)) =
     (if scheduledBusId = [] then (ErrorReply ''Invalid data format'', db)
      else
        (let r = upd db scheduledBusId latitude_in longitude_in in
         case result r of
           Inl e \<Rightarrow> (ErrorReply ''Failed to process request'', store_after r)
         | Inr updatedBus \<Rightarrow> (BusUpdate (scheduledBuses (store_after r)), store_after r)))"
| "on_message upd db (LocationUpdate _ _ _) = (ErrorReply ''Invalid data format'', db)"
| "on_message upd db (BusStopRequest None st) = (ErrorReply ''Bus stop ID is required'', db)"
| "on_message upd db (BusStopRequest (Some busStopId) st) =
     (if busStopId = [] then (ErrorReply ''Bus stop ID is required'', db)
      else
        (case array_filter (servesStop db busStopId) (paginate db 1 10) of
           Inl e \<Rightarrow> (ErrorReply ''Failed to process request'', db)
         | Inr schedules \<Rightarrow> (BusStopResponse (filter_by_status st schedules), db)))"
| "on_message upd db OtherType = (Nothing, db)"

section \<open>The speed estimate\<close>

text \<open>
  Modelled from the spec: \<^verbatim>\<open>calculateSpeed\<close> of \<^verbatim>\<open>./utils/time.js\<close>, which is not
  among the sources. The spec: the speed is absent when no previous fix exists or the
  current time does not exceed the previous fix's time; otherwise it is the distance
  between the two fixes divided by the elapsed time in hours. Times are in milliseconds,
  3600000 to the hour; \<open>hav\<close> is the distance function.
\<close>

definition calculateSpeed_spec ::
  "(real \<Rightarrow> real \<Rightarrow> real \<Rightarrow> real \<Rightarrow> real) \<Rightarrow> millis \<Rightarrow> real option \<Rightarrow> real option \<Rightarrow> millis option
     \<Rightarrow> real \<Rightarrow> real \<Rightarrow> real option" where
  "calculateSpeed_spec hav curTime prevLat prevLng prevTime curLat curLng =
     (case (prevLat, prevLng, prevTime) of
        (Some pLat, Some pLng, Some pTime) \<Rightarrow>
          if curTime \<le> pTime then None
          else Some (hav pLat pLng curLat curLng / (real_of_int (curTime - pTime) / 3600000))
      | _ \<Rightarrow> None)"

definition utils_with :: "(real \<Rightarrow> real \<Rightarrow> real \<Rightarrow> real \<Rightarrow> real) \<Rightarrow> time_utils" where
  "utils_with hav = \<lparr> haversineDistance = hav, calculateSpeed = calculateSpeed_spec hav \<rparr>"

section \<open>Observing the store\<close>

text \<open>The stops of the entries of a trip's \<^verbatim>\<open>leftAt\<close>, in order; empty for an unknown trip.\<close>

definition stop_log :: "store \<Rightarrow> oid \<Rightarrow> oid list" where
  "stop_log db i = (case findById db i of None \<Rightarrow> [] | Some sb \<Rightarrow> map stop (leftAt sb))"

section \<open>Example stores\<close>

text \<open>
  A distance function for the examples: zero between equal points, 111 km to the degree.
  The theorems hold for every distance function; the examples need one that computes.
\<close>

definition flat_distance :: "real \<Rightarrow> real \<Rightarrow> real \<Rightarrow> real \<Rightarrow> real" where
  "flat_distance a b c d = 111 * (\<bar>a - c\<bar> + \<bar>b - d\<bar>)"

definition example_utils :: time_utils where
  "example_utils = utils_with flat_distance"

definition stop_at :: "oid \<Rightarrow> real \<Rightarrow> real \<Rightarrow> BusStop" where
  "stop_at i a b = \<lparr> stop_id = i, coordinates = Some \<lparr> lat = Some a, lng = Some b \<rparr> \<rparr>"

definition new_trip :: "oid \<Rightarrow> oid \<Rightarrow> millis \<Rightarrow> ScheduledBus" where
  "new_trip i r created =
     \<lparr> sb_id = i, route = Some r, createdAt = created,
       distanceTraveled = None, distanceRemaining = None, speed = None,
       journeyCompletion = None, leftAt = [], status = ''Scheduled'',
       location = \<lparr> latitude = None, longitude = None, lastUpdated = None \<rparr> \<rparr>"

text \<open>
  One trip on a route of 111 km from A to B along latitude 10, with two stops M and N
  that share one position halfway.
\<close>

definition example_stops :: "BusStop list" where
  "example_stops =
     [stop_at ''A'' 10 20, stop_at ''M'' 10 (41 / 2), stop_at ''N'' 10 (41 / 2), stop_at ''B'' 10 21]"

definition example_route :: Route where
  "example_route =
     \<lparr> route_id = ''r1'', origin = Some ''A'', destination = Some ''B'',
       stops = Some [''A'', ''M'', ''N'', ''B''], totalDistance = Some 111 \<rparr>"

definition example_store :: store where
  "example_store =
     \<lparr> scheduledBuses = [new_trip ''bus1'' ''r1'' 1000],
       routeDocs = [example_route],
       busStops = example_stops \<rparr>"

text \<open>
  The example trip after an update at the position of M that was stored at time \<open>t\<close>
  with speed \<open>v\<close>: halfway, with M logged at time 5000.
\<close>

definition example_trip_at_M :: "millis \<Rightarrow> real option \<Rightarrow> ScheduledBus" where
  "example_trip_at_M t v =
     (new_trip ''bus1'' ''r1'' 1000)
       \<lparr> distanceTraveled := Some (111 / 2), distanceRemaining := Some (111 / 2),
         speed := v, journeyCompletion := Some 50,
         leftAt := [\<lparr> stop = ''M'', time = 5000 \<rparr>],
         location := \<lparr> latitude = Some 10, longitude = Some (41 / 2), lastUpdated = Some t \<rparr> \<rparr>"

text \<open>The keys assembled for such an update at time \<open>t\<close>, with the speed key \<open>v\<close>.\<close>

definition example_fields_at_M :: "millis \<Rightarrow> real option \<Rightarrow> updateFields" where
  "example_fields_at_M t v =
     \<lparr> set_latitude = 10, set_longitude = 41 / 2, set_lastUpdated = t,
       set_distanceTraveled = 111 / 2, set_distanceRemaining = 111 / 2,
       set_journeyCompletion = 50, set_speed = v \<rparr>"

text \<open>The example store with the trip at M, last seen at time 5000 with speed 40.\<close>

definition moving_store :: store where
  "moving_store = example_store \<lparr> scheduledBuses := [example_trip_at_M 5000 (Some 40)] \<rparr>"

text \<open>The keys assembled for an update at B at time \<open>t\<close>, with the speed key \<open>v\<close>.\<close>

definition example_fields_at_B :: "millis \<Rightarrow> real option \<Rightarrow> updateFields" where
  "example_fields_at_B t v =
     \<lparr> set_latitude = 10, set_longitude = 21, set_lastUpdated = t,
       set_distanceTraveled = 111, set_distanceRemaining = 0,
       set_journeyCompletion = 100, set_speed = v \<rparr>"

text \<open>
  For the examples, a first draft whose utilities make NaN of a coordinate that is not a
  number, so that the write rejects the update.
\<close>

definition example_nonNumber ::
  "store \<Rightarrow> oid \<Rightarrow> coordinate \<Rightarrow> coordinate \<Rightarrow> ScheduledBus option outcome" where
  "example_nonNumber db i latitude_in longitude_in = catch_rethrow db (Inl ''CastError'')"

text \<open>The same store with the route's total distance missing.\<close>

definition incomplete_store :: store where
  "incomplete_store = example_store \<lparr> routeDocs := [example_route \<lparr> totalDistance := None \<rparr>] \<rparr>"

text \<open>
  Eleven trips in order of creation: the first ten run route r1, the eleventh runs route
  r2, the only route that serves stop Z.
\<close>

definition fleet_store :: store where
  "fleet_store =
     \<lparr> scheduledBuses =
         [new_trip ''t01'' ''r1'' 1, new_trip ''t02'' ''r1'' 2, new_trip ''t03'' ''r1'' 3,
          new_trip ''t04'' ''r1'' 4, new_trip ''t05'' ''r1'' 5, new_trip ''t06'' ''r1'' 6,
          new_trip ''t07'' ''r1'' 7, new_trip ''t08'' ''r1'' 8, new_trip ''t09'' ''r1'' 9,
          new_trip ''t10'' ''r1'' 10, new_trip ''t11'' ''r2'' 11],
       routeDocs =
         [example_route,
          \<lparr> route_id = ''r2'', origin = Some ''A'', destination = Some ''Z'',
            stops = Some [''A'', ''Z''], totalDistance = Some 50 \<rparr>],
       busStops = example_stops @ [stop_at ''Z'' 11 20] \<rparr>"

section \<open>Every position update of src/index.js fails\<close>

lemma updateBusLocation_try_throws:
  "\<exists>m. updateBusLocation_try U now db i la lo = Inl m"
  unfolding updateBusLocation_try_def
  by (cases "updateBusLocation_fields U now db i la lo") auto

lemma updateBusLocation_result:
  "result (updateBusLocation U now db i la lo) = Inl ''Error updating bus location''"
  using updateBusLocation_try_throws [of U now db i la lo]
  by (auto simp: updateBusLocation_def catch_rethrow_def)

lemma updateBusLocation_store:
  "store_after (updateBusLocation U now db i la lo) = db"
  using updateBusLocation_try_throws [of U now db i la lo]
  by (auto simp: updateBusLocation_def catch_rethrow_def)

lemma updateBusLocation_nonNumber_fails:
  "result (updateBusLocation_nonNumber db i ca cb) = Inl ''Error updating bus location''
   \<and> store_after (updateBusLocation_nonNumber db i ca cb) = db"
  by (cases "updateBusLocation_checked db i")
     (simp_all add: updateBusLocation_nonNumber_def catch_rethrow_def)

lemma updateBusLocation_received_result:
  "result (updateBusLocation_received U now db i ca cb) = Inl ''Error updating bus location''"
  by (cases ca; cases cb)
     (simp_all add: updateBusLocation_received_def for_numbers_def updateBusLocation_result
        updateBusLocation_nonNumber_fails)

lemma updateBusLocation_received_store:
  "store_after (updateBusLocation_received U now db i ca cb) = db"
  by (cases ca; cases cb)
     (simp_all add: updateBusLocation_received_def for_numbers_def updateBusLocation_store
        updateBusLocation_nonNumber_fails)

text \<open>
  C2. Whatever the store holds and whatever identifier and coordinates are passed
  (numbers or not), \<^verbatim>\<open>updateBusLocation\<close> of \<^verbatim>\<open>src/index.js\<close> throws
  \<^verbatim>\<open>Error("Error updating bus location")\<close>, returns no document and leaves the store as
  it was: the write is never reached. Consequently no \<^verbatim>\<open>locationUpdate\<close> message is
  answered with the \<^verbatim>\<open>busUpdate\<close> broadcast, and every message that reaches the call
  of line 31 (its scheduledBusId truthy, its latitude and longitude not undefined) is
  answered with the generic \<^verbatim>\<open>{ error: "Failed to process request" }\<close>. The only other
  answer a \<^verbatim>\<open>locationUpdate\<close> gets is that of the presence check of line 27, before
  any call.
\<close>

theorem updateBusLocation_always_throws:
  "result (updateBusLocation U now db i la lo) = Inl ''Error updating bus location''
   \<and> store_after (updateBusLocation U now db i la lo) = db
   \<and> result (updateBusLocation_received U now db i ca cb) = Inl ''Error updating bus location''
   \<and> store_after (updateBusLocation_received U now db i ca cb) = db
   \<and> on_message (updateBusLocation_received U now) db (LocationUpdate sid mla mlo) =
       (ErrorReply (if falsy_str sid \<or> mla = None \<or> mlo = None
                    then ''Invalid data format'' else ''Failed to process request''), db)"
proof -
  have "on_message (updateBusLocation_received U now) db (LocationUpdate sid mla mlo) =
       (ErrorReply (if falsy_str sid \<or> mla = None \<or> mlo = None
                    then ''Invalid data format'' else ''Failed to process request''), db)"
    by (cases sid; cases mla; cases mlo)
       (simp_all add: falsy_str_def updateBusLocation_received_result
          updateBusLocation_received_store)
  then show ?thesis
    by (simp add: updateBusLocation_result updateBusLocation_store
        updateBusLocation_received_result updateBusLocation_received_store)
qed

section \<open>The derived metrics\<close>

lemma toFixed2_nonneg:
  assumes "0 \<le> x"
  shows "0 \<le> toFixed2 x"
proof -
  have "0 \<le> x * 100 + 1 / 2" using assms by simp
  then have "0 \<le> \<lfloor>x * 100 + 1 / 2\<rfloor>" by simp
  then show ?thesis using assms by (simp add: toFixed2_def)
qed

lemma toFixed2_le_100:
  assumes "0 \<le> x" and "x \<le> 100"
  shows "toFixed2 x \<le> 100"
proof -
  have "x * 100 + 1 / 2 < 10001" using assms by simp
  then have "\<lfloor>x * 100 + 1 / 2\<rfloor> < 10001" by (simp add: floor_less_iff)
  then have "\<lfloor>x * 100 + 1 / 2\<rfloor> \<le> 10000" by simp
  then have "(of_int \<lfloor>x * 100 + 1 / 2\<rfloor> :: real) \<le> 10000" by linarith
  then show ?thesis using assms by (simp add: toFixed2_def)
qed

lemma assemble_updateFields_range:
  "0 \<le> set_journeyCompletion (assemble_updateFields U now loc org dst totalDist a b)
   \<and> set_journeyCompletion (assemble_updateFields U now loc org dst totalDist a b) \<le> 100
   \<and> 0 \<le> set_distanceRemaining (assemble_updateFields U now loc org dst totalDist a b)"
  by (simp add: assemble_updateFields_def Let_def toFixed2_nonneg toFixed2_le_100)

lemma assemble_updateFields_speed:
  "set_speed (assemble_updateFields U now loc org dst totalDist a b) =
     calculateSpeed U now (latitude loc) (longitude loc) (lastUpdated loc) a b"
  by (simp add: assemble_updateFields_def Let_def)

text \<open>What a successful run of the guards of \<^verbatim>\<open>src/index.js\<close> has established.\<close>

lemma updateBusLocation_fields_Inr:
  assumes "updateBusLocation_fields U now db i a b = Inr (uf, sd)"
  shows "\<exists>sb rt refs org dst totalDist.
           findById db i = Some sb \<and> populate_route db (route sb) = Some rt
           \<and> stops rt = Some refs \<and> sd = BusStop_find db refs \<and> sd \<noteq> []
           \<and> totalDistance rt = Some totalDist \<and> totalDist \<noteq> 0
           \<and> uf = assemble_updateFields U now (location sb) org dst totalDist a b"
proof -
  from assms obtain sb rt refs orgC dstC totalDist where
    "findById db i = Some sb" "populate_route db (route sb) = Some rt"
    "stops rt = Some refs" "sd = BusStop_find db refs" "sd \<noteq> []"
    "totalDistance rt = Some totalDist" "totalDist \<noteq> 0"
    "uf = assemble_updateFields U now (location sb) orgC dstC totalDist a b"
    unfolding updateBusLocation_fields_def updateBusLocation_checked_def Let_def
    by (auto split: option.splits if_splits)
  then show ?thesis by blast
qed

text \<open>The same for the first draft.\<close>

lemma updateBusLocation_draft1_fields_Inr:
  assumes "updateBusLocation_draft1_fields U now db i a b = Inr (uf, newLeftAt, p)"
  shows "\<exists>sb rt refs org dst totalDist.
           findById db i = Some sb \<and> populate_route db (route sb) = Some rt
           \<and> stops rt = Some refs \<and> BusStop_find db refs \<noteq> []
           \<and> array_find (withinThreshold U THRESHOLD_DISTANCE_draft1 a b) (BusStop_find db refs) = Inr p
           \<and> newLeftAt = record_passage now (leftAt sb) p
           \<and> uf = assemble_updateFields U now (location sb) org dst totalDist a b"
proof -
  from assms obtain sb rt refs orgC dstC totalDist oLat oLng dLat dLng where
    "findById db i = Some sb" "populate_route db (route sb) = Some rt"
    "stops rt = Some refs" "BusStop_find db refs \<noteq> []"
    "array_find (withinThreshold U THRESHOLD_DISTANCE_draft1 a b) (BusStop_find db refs) = Inr p"
    "newLeftAt = record_passage now (leftAt sb) p"
    "uf = assemble_updateFields U now (location sb) (oLat, oLng) (dLat, dLng) totalDist a b"
    unfolding updateBusLocation_draft1_fields_def Let_def
    by (auto split: option.splits if_splits sum.splits)
  then show ?thesis by blast
qed

text \<open>The write of the first draft: what is returned and what is stored.\<close>

lemma find_replace_first:
  assumes "\<And>b. sb_id (f b) = sb_id b"
  shows "find (\<lambda>b. sb_id b = i') (replace_first i f bs) =
           (if i' = i then map_option f (find (\<lambda>b. sb_id b = i) bs)
            else find (\<lambda>b. sb_id b = i') bs)"
  by (induction bs) (auto simp: assms)

lemma sb_id_write [simp]: "sb_id ((apply_set uf b) \<lparr> leftAt := l \<rparr>) = sb_id b"
  by (simp add: apply_set_def)

lemma route_write [simp]: "route ((apply_set uf b) \<lparr> leftAt := l \<rparr>) = route b"
  by (simp add: apply_set_def)

lemma updateBusLocation_draft1_run:
  assumes "updateBusLocation_draft1_fields U now db i a b = Inr (uf, newLeftAt, p)"
    and "findById db i = Some sb"
  shows "updateBusLocation_draft1 U now True db i a b =
           \<lparr> logged = [],
             result = Inr (Some ((apply_set uf sb) \<lparr> leftAt := newLeftAt \<rparr>)),
             store_after = db \<lparr> scheduledBuses :=
               replace_first i (\<lambda>x. (apply_set uf x) \<lparr> leftAt := newLeftAt \<rparr>) (scheduledBuses db) \<rparr> \<rparr>"
  using assms
  by (simp add: updateBusLocation_draft1_def updateBusLocation_draft1_try_def catch_rethrow_def
      findByIdAndUpdate_def)

lemma updateBusLocation_draft1_Inr:
  assumes "result (updateBusLocation_draft1 U now w db i a b) = Inr r"
  shows "\<exists>sb uf newLeftAt p.
           updateBusLocation_draft1_fields U now db i a b = Inr (uf, newLeftAt, p)
           \<and> findById db i = Some sb
           \<and> r = Some ((apply_set uf sb) \<lparr> leftAt := newLeftAt \<rparr>)
           \<and> store_after (updateBusLocation_draft1 U now w db i a b) =
               db \<lparr> scheduledBuses :=
                 replace_first i (\<lambda>x. (apply_set uf x) \<lparr> leftAt := newLeftAt \<rparr>) (scheduledBuses db) \<rparr>"
proof (cases "updateBusLocation_draft1_fields U now db i a b")
  case (Inl m)
  with assms show ?thesis
    by (simp add: updateBusLocation_draft1_def updateBusLocation_draft1_try_def catch_rethrow_def)
next
  case (Inr t)
  obtain uf newLeftAt p where t: "t = (uf, newLeftAt, p)" by (cases t) auto
  from updateBusLocation_draft1_fields_Inr [OF Inr [unfolded t]]
  obtain sb where sb: "findById db i = Some sb" by blast
  from assms Inr t sb show ?thesis
    by (auto simp: updateBusLocation_draft1_def updateBusLocation_draft1_try_def catch_rethrow_def
        findByIdAndUpdate_def split: if_splits)
qed

lemma findById_after_write:
  "findById (db \<lparr> scheduledBuses :=
       replace_first i (\<lambda>x. (apply_set uf x) \<lparr> leftAt := l \<rparr>) (scheduledBuses db) \<rparr>) i' =
     (if i' = i then map_option (\<lambda>x. (apply_set uf x) \<lparr> leftAt := l \<rparr>) (findById db i)
      else findById db i')"
  by (simp add: findById_def find_replace_first)

section \<open>The example trip, evaluated\<close>

lemmas example_defs =
  example_utils_def utils_with_def flat_distance_def calculateSpeed_spec_def
  example_store_def example_route_def example_stops_def stop_at_def new_trip_def

lemmas lookup_defs =
  findById_def populate_route_def populate_stop_def BusStop_find_def
  updateBusLocation_checked_def
  truthy_coordinates_def unchecked_coordinates_def withinThreshold_def
  THRESHOLD_DISTANCE_draft1_def record_passage_def

lemma example_fields:
  "updateBusLocation_fields example_utils now example_store ''bus1'' 10 (41 / 2) =
     Inr (example_fields_at_M now None, example_stops)"
  by (simp add: updateBusLocation_fields_def assemble_updateFields_def toFixed2_def Let_def
      example_fields_at_M_def example_defs lookup_defs)

lemma example_draft1_fields:
  "updateBusLocation_draft1_fields example_utils now example_store ''bus1'' 10 (41 / 2) =
     Inr (example_fields_at_M now None, [\<lparr> stop = ''M'', time = now \<rparr>],
          Some (stop_at ''M'' 10 (41 / 2)))"
  by (simp add: updateBusLocation_draft1_fields_def assemble_updateFields_def toFixed2_def Let_def
      example_fields_at_M_def example_defs lookup_defs)

lemma example_findById: "findById example_store ''bus1'' = Some (new_trip ''bus1'' ''r1'' 1000)"
  by (simp add: findById_def example_store_def new_trip_def)

lemma example_first_update:
  "updateBusLocation_draft1 example_utils 5000 True example_store ''bus1'' 10 (41 / 2) =
     \<lparr> logged = [],
       result = Inr (Some (example_trip_at_M 5000 None)),
       store_after = example_store \<lparr> scheduledBuses := [example_trip_at_M 5000 None] \<rparr> \<rparr>"
  unfolding updateBusLocation_draft1_run [OF example_draft1_fields example_findById]
  by (simp add: apply_set_def new_trip_def example_store_def example_trip_at_M_def
      example_fields_at_M_def)

lemma example_first_found:
  "findById (store_after (updateBusLocation_draft1 example_utils 5000 True example_store
      ''bus1'' 10 (41 / 2))) ''bus1'' = Some (example_trip_at_M 5000 None)"
  unfolding example_first_update
  by (simp add: findById_def example_store_def new_trip_def example_trip_at_M_def)

lemma example_second_fields:
  "updateBusLocation_draft1_fields example_utils 6000
     (store_after (updateBusLocation_draft1 example_utils 5000 True example_store ''bus1'' 10 (41 / 2)))
     ''bus1'' 10 (41 / 2) =
     Inr (example_fields_at_M 6000 (Some 0), [\<lparr> stop = ''M'', time = 5000 \<rparr>],
          Some (stop_at ''M'' 10 (41 / 2)))"
  unfolding example_first_update
  by (simp add: updateBusLocation_draft1_fields_def assemble_updateFields_def
      toFixed2_def Let_def example_defs lookup_defs example_trip_at_M_def example_fields_at_M_def)

lemma example_second_update:
  "updateBusLocation_draft1 example_utils 6000 True
     (store_after (updateBusLocation_draft1 example_utils 5000 True example_store ''bus1'' 10 (41 / 2)))
     ''bus1'' 10 (41 / 2) =
   \<lparr> logged = [],
     result = Inr (Some (example_trip_at_M 6000 (Some 0))),
     store_after = example_store \<lparr> scheduledBuses := [example_trip_at_M 6000 (Some 0)] \<rparr> \<rparr>"
  unfolding updateBusLocation_draft1_run [OF example_second_fields example_first_found]
  unfolding example_first_update
  by (simp add: apply_set_def new_trip_def example_store_def example_trip_at_M_def
      example_fields_at_M_def)

section \<open>Range of the progress values\<close>

text \<open>
  C1. The completion percentage and the remaining distance of a position update lie in
  range, for every pair of coordinates (in the geographic range or not). In
  \<^verbatim>\<open>src/index.js\<close> this is the \<^verbatim>\<open>updateFields\<close> the function assembles whenever its
  guards pass: \<^verbatim>\<open>journeyCompletion\<close> is between 0 and 100 and \<^verbatim>\<open>distanceRemaining\<close>
  is not negative. In the first draft, whose write is reached, every update that returns
  a trip has stored that trip, and its stored \<^verbatim>\<open>journeyCompletion\<close> is between 0 and
  100 and its stored \<^verbatim>\<open>distanceRemaining\<close> is not negative.
\<close>

theorem completion_and_remaining_in_range:
  "(updateBusLocation_fields U now db i a b = Inr (uf, sd) \<longrightarrow>
      0 \<le> set_journeyCompletion uf \<and> set_journeyCompletion uf \<le> 100
      \<and> 0 \<le> set_distanceRemaining uf)
   \<and> (result (updateBusLocation_draft1 U now w db i a b) = Inr (Some sb') \<longrightarrow>
      findById (store_after (updateBusLocation_draft1 U now w db i a b)) i = Some sb'
      \<and> (\<exists>c r. journeyCompletion sb' = Some c \<and> 0 \<le> c \<and> c \<le> 100
               \<and> distanceRemaining sb' = Some r \<and> 0 \<le> r))"
proof (intro conjI impI)
  assume "updateBusLocation_fields U now db i a b = Inr (uf, sd)"
  from updateBusLocation_fields_Inr [OF this]
  obtain loc org dst totalDist where
    uf: "uf = assemble_updateFields U now loc org dst totalDist a b" by blast
  show "0 \<le> set_journeyCompletion uf" "set_journeyCompletion uf \<le> 100"
    "0 \<le> set_distanceRemaining uf"
    using assemble_updateFields_range [of U now loc org dst totalDist a b] by (simp_all add: uf)
next
  assume ok: "result (updateBusLocation_draft1 U now w db i a b) = Inr (Some sb')"
  from updateBusLocation_draft1_Inr [OF ok]
  obtain sb uf newLeftAt p where
    f: "updateBusLocation_draft1_fields U now db i a b = Inr (uf, newLeftAt, p)"
    and sb: "findById db i = Some sb"
    and sb': "sb' = (apply_set uf sb) \<lparr> leftAt := newLeftAt \<rparr>"
    and st: "store_after (updateBusLocation_draft1 U now w db i a b) =
               db \<lparr> scheduledBuses :=
                 replace_first i (\<lambda>x. (apply_set uf x) \<lparr> leftAt := newLeftAt \<rparr>) (scheduledBuses db) \<rparr>"
    by auto
  from updateBusLocation_draft1_fields_Inr [OF f]
  obtain loc org dst totalDist where
    uf: "uf = assemble_updateFields U now loc org dst totalDist a b" by blast
  show "findById (store_after (updateBusLocation_draft1 U now w db i a b)) i = Some sb'"
    by (simp add: st findById_after_write sb sb')
  have "journeyCompletion sb' = Some (set_journeyCompletion uf)"
    and "distanceRemaining sb' = Some (set_distanceRemaining uf)"
    by (simp_all add: sb' apply_set_def)
  then show "\<exists>c r. journeyCompletion sb' = Some c \<and> 0 \<le> c \<and> c \<le> 100
               \<and> distanceRemaining sb' = Some r \<and> 0 \<le> r"
    using assemble_updateFields_range [of U now loc org dst totalDist a b] by (simp add: uf)
qed

theorem completion_and_remaining_in_range_witness:
  "(\<exists>uf sd. updateBusLocation_fields example_utils 5000 example_store ''bus1'' 10 (41 / 2) = Inr (uf, sd)
      \<and> 0 \<le> set_journeyCompletion uf \<and> set_journeyCompletion uf \<le> 100
      \<and> 0 \<le> set_distanceRemaining uf)
   \<and> (\<exists>sb'. result (updateBusLocation_draft1 example_utils 5000 True example_store ''bus1'' 10 (41 / 2))
          = Inr (Some sb')
      \<and> findById (store_after
           (updateBusLocation_draft1 example_utils 5000 True example_store ''bus1'' 10 (41 / 2))) ''bus1''
          = Some sb'
      \<and> (\<exists>c r. journeyCompletion sb' = Some c \<and> 0 \<le> c \<and> c \<le> 100
               \<and> distanceRemaining sb' = Some r \<and> 0 \<le> r))"
proof -
  have r: "result (updateBusLocation_draft1 example_utils 5000 True example_store ''bus1'' 10 (41 / 2))
      = Inr (Some (example_trip_at_M 5000 None))"
    by (simp add: example_first_update)
  from completion_and_remaining_in_range
    [of example_utils 5000 example_store "''bus1''" 10 "41 / 2" _ _ True]
    example_fields [of 5000] r
  show ?thesis by blast
qed

section \<open>Stop passage in the first draft\<close>

lemma array_find_Some:
  "array_find f xs = Inr (Some x) \<Longrightarrow>
   \<exists>pre post. xs = pre @ x # post \<and> f x = Inr True \<and> (\<forall>y\<in>set pre. f y = Inr False)"
proof (induction xs)
  case Nil
  then show ?case by simp
next
  case (Cons z zs)
  show ?case
  proof (cases "f z")
    case (Inl e)
    with Cons.prems show ?thesis by simp
  next
    case (Inr accepted)
    show ?thesis
    proof (cases accepted)
      case True
      with Inr Cons.prems have "x = z" by simp
      with Inr True have "z # zs = [] @ x # zs \<and> f x = Inr True \<and> (\<forall>y\<in>set []. f y = Inr False)"
        by simp
      then show ?thesis by blast
    next
      case False
      with Inr Cons.prems have "array_find f zs = Inr (Some x)" by simp
      from Cons.IH [OF this] obtain pre post where
        "zs = pre @ x # post" "f x = Inr True" "\<forall>y\<in>set pre. f y = Inr False" by blast
      with Inr False have "z # zs = (z # pre) @ x # post \<and> f x = Inr True
          \<and> (\<forall>y\<in>set (z # pre). f y = Inr False)" by simp
      then show ?thesis by blast
    qed
  qed
qed

lemma array_find_None:
  "array_find f xs = Inr None \<Longrightarrow> \<forall>y\<in>set xs. f y = Inr False"
  by (induction xs) (auto split: sum.splits if_splits)

lemma record_passage_unfold:
  "record_passage now entries p =
     (case p of
        None \<Rightarrow> entries
      | Some s \<Rightarrow>
          if stop_id s \<in> stop ` set entries then entries
          else entries @ [\<lparr> stop = stop_id s, time = now \<rparr>])"
  by (force simp: record_passage_def list_ex_iff split: option.splits)

lemma record_passage_distinct:
  "distinct (map stop entries) \<Longrightarrow> distinct (map stop (record_passage now entries p))"
  by (auto simp: record_passage_unfold split: option.splits)

lemma record_passage_again:
  "record_passage t2 (record_passage t1 entries (Some s)) (Some s) =
     record_passage t1 entries (Some s)"
  by (auto simp: record_passage_unfold)

lemma count_distinct_key:
  "distinct (map f xs) \<Longrightarrow> y \<in> f ` set xs \<Longrightarrow> length (filter (\<lambda>e. f e = y) xs) = 1"
proof (induction xs)
  case Nil
  then show ?case by simp
next
  case (Cons x xs)
  show ?case
  proof (cases "f x = y")
    case True
    with Cons.prems have "y \<notin> f ` set xs" by auto
    then have "filter (\<lambda>e. f e = y) xs = []" by (auto simp: filter_empty_conv)
    with True show ?thesis by simp
  next
    case False
    with Cons show ?thesis by auto
  qed
qed

lemma record_passage_once:
  assumes "distinct (map stop entries)"
  shows "length (filter (\<lambda>e. stop e = stop_id s) (record_passage now entries (Some s))) = 1"
proof (cases "stop_id s \<in> stop ` set entries")
  case True
  with assms show ?thesis by (simp add: record_passage_unfold count_distinct_key)
next
  case False
  then have "filter (\<lambda>e. stop e = stop_id s) entries = []"
    by (force simp: filter_empty_conv)
  with False show ?thesis by (simp add: record_passage_unfold)
qed

lemma leftAt_write [simp]: "leftAt ((apply_set uf sb) \<lparr> leftAt := l \<rparr>) = l"
  by simp


lemma stop_log_stays_distinct:
  assumes "result (updateBusLocation_draft1 U now w db i a b) = Inr (Some sb')"
    and "findById db i = Some sb"
    and "distinct (map stop (leftAt sb))"
  shows "distinct (map stop (leftAt sb'))"
proof -
  from updateBusLocation_draft1_Inr [OF assms(1)] assms(2)
  obtain uf newLeftAt p where
    f: "updateBusLocation_draft1_fields U now db i a b = Inr (uf, newLeftAt, p)"
    and sb': "sb' = (apply_set uf sb) \<lparr> leftAt := newLeftAt \<rparr>"
    by auto
  from updateBusLocation_draft1_fields_Inr [OF f] assms(2)
  have "newLeftAt = record_passage now (leftAt sb) p" by auto
  with assms(3) sb' show ?thesis by (simp add: record_passage_distinct)
qed

lemma same_stop_twice:
  assumes u1: "result (updateBusLocation_draft1 U t1 w1 db i a1 b1) = Inr (Some sb1)"
    and db1: "db1 = store_after (updateBusLocation_draft1 U t1 w1 db i a1 b1)"
    and u2: "result (updateBusLocation_draft1 U t2 w2 db1 i a2 b2) = Inr (Some sb2)"
    and p1: "updateBusLocation_draft1_fields U t1 db i a1 b1 = Inr (uf1, l1, Some s)"
    and p2: "updateBusLocation_draft1_fields U t2 db1 i a2 b2 = Inr (uf2, l2, Some s)"
    and sb: "findById db i = Some sb"
  shows "leftAt sb1 = record_passage t1 (leftAt sb) (Some s) \<and> leftAt sb2 = leftAt sb1"
proof -
  from updateBusLocation_draft1_Inr [OF u1] p1 sb
  have sb1: "sb1 = (apply_set uf1 sb) \<lparr> leftAt := l1 \<rparr>"
    and st: "store_after (updateBusLocation_draft1 U t1 w1 db i a1 b1) =
               db \<lparr> scheduledBuses :=
                 replace_first i (\<lambda>x. (apply_set uf1 x) \<lparr> leftAt := l1 \<rparr>) (scheduledBuses db) \<rparr>"
    by auto
  from updateBusLocation_draft1_fields_Inr [OF p1] sb
  have l1: "l1 = record_passage t1 (leftAt sb) (Some s)" by auto
  have found: "findById db1 i = Some sb1"
    by (simp add: db1 st findById_after_write sb sb1)
  from updateBusLocation_draft1_Inr [OF u2] p2 found
  have sb2: "sb2 = (apply_set uf2 sb1) \<lparr> leftAt := l2 \<rparr>" by auto
  from updateBusLocation_draft1_fields_Inr [OF p2] found
  have l2: "l2 = record_passage t2 (leftAt sb1) (Some s)" by auto
  have "leftAt sb1 = l1" by (simp add: sb1)
  moreover have "leftAt sb2 = l2" by (simp add: sb2)
  ultimately show ?thesis using l1 l2 by (simp add: record_passage_again)
qed

text \<open>
  C3, as the first draft has it. An update records at most one stop, the one its stop
  search selects; a stop within the threshold that the search does not select gets no
  entry from that update. For the stop selected: no update that returns a trip gives a
  \<^verbatim>\<open>leftAt\<close> with distinct stops a duplicate; and of two updates in sequence that
  both select the same stop, the first appends one entry with its own time when none
  refers to the stop and none otherwise, and the second appends nothing, so a
  \<^verbatim>\<open>leftAt\<close> that had distinct stops holds exactly one entry for the stop afterwards.
  (\<^verbatim>\<open>src/index.js\<close> never reaches its stop-passage section.)
\<close>

theorem stop_passage_idempotent:
  "(result (updateBusLocation_draft1 U now w db i a b) = Inr (Some sb') \<and> findById db i = Some sb
      \<and> distinct (map stop (leftAt sb))
    \<longrightarrow> distinct (map stop (leftAt sb')))
   \<and> (result (updateBusLocation_draft1 U t1 w1 db i a1 b1) = Inr (Some sb1)
      \<and> result (updateBusLocation_draft1 U t2 w2
           (store_after (updateBusLocation_draft1 U t1 w1 db i a1 b1)) i a2 b2) = Inr (Some sb2)
      \<and> updateBusLocation_draft1_fields U t1 db i a1 b1 = Inr (uf1, l1, Some s)
      \<and> updateBusLocation_draft1_fields U t2
           (store_after (updateBusLocation_draft1 U t1 w1 db i a1 b1)) i a2 b2 = Inr (uf2, l2, Some s)
      \<and> findById db i = Some sb
    \<longrightarrow> leftAt sb1 =
          (if stop_id s \<in> stop ` set (leftAt sb) then leftAt sb
           else leftAt sb @ [\<lparr> stop = stop_id s, time = t1 \<rparr>])
        \<and> leftAt sb2 = leftAt sb1
        \<and> (distinct (map stop (leftAt sb)) \<longrightarrow>
             length (filter (\<lambda>e. stop e = stop_id s) (leftAt sb2)) = 1))"
proof (intro conjI impI; (elim conjE)?)
  assume "result (updateBusLocation_draft1 U now w db i a b) = Inr (Some sb')"
    "findById db i = Some sb" "distinct (map stop (leftAt sb))"
  then show "distinct (map stop (leftAt sb'))" by (rule stop_log_stays_distinct)
next
  assume h: "result (updateBusLocation_draft1 U t1 w1 db i a1 b1) = Inr (Some sb1)"
    "result (updateBusLocation_draft1 U t2 w2
       (store_after (updateBusLocation_draft1 U t1 w1 db i a1 b1)) i a2 b2) = Inr (Some sb2)"
    "updateBusLocation_draft1_fields U t1 db i a1 b1 = Inr (uf1, l1, Some s)"
    "updateBusLocation_draft1_fields U t2
       (store_after (updateBusLocation_draft1 U t1 w1 db i a1 b1)) i a2 b2 = Inr (uf2, l2, Some s)"
    "findById db i = Some sb"
  note twice = same_stop_twice [OF h(1) refl h(2) h(3) h(4) h(5)]
  from twice show "leftAt sb1 =
          (if stop_id s \<in> stop ` set (leftAt sb) then leftAt sb
           else leftAt sb @ [\<lparr> stop = stop_id s, time = t1 \<rparr>])"
    by (simp add: record_passage_unfold)
  from twice show "leftAt sb2 = leftAt sb1" by simp
  assume "distinct (map stop (leftAt sb))"
  with twice show "length (filter (\<lambda>e. stop e = stop_id s) (leftAt sb2)) = 1"
    by (simp add: record_passage_once)
qed



text \<open>
  The example trip, updated twice at the position of M: M is logged once, at the time of
  the first update.
\<close>

theorem stop_passage_idempotent_witness:
  "result (updateBusLocation_draft1 example_utils 5000 True example_store ''bus1'' 10 (41 / 2))
     = Inr (Some (example_trip_at_M 5000 None))
   \<and> result (updateBusLocation_draft1 example_utils 6000 True
        (store_after (updateBusLocation_draft1 example_utils 5000 True example_store
           ''bus1'' 10 (41 / 2))) ''bus1'' 10 (41 / 2))
     = Inr (Some (example_trip_at_M 6000 (Some 0)))
   \<and> distinct (map stop (leftAt (new_trip ''bus1'' ''r1'' 1000)))
   \<and> leftAt (example_trip_at_M 5000 None) = [\<lparr> stop = ''M'', time = 5000 \<rparr>]
   \<and> leftAt (example_trip_at_M 6000 (Some 0)) = leftAt (example_trip_at_M 5000 None)
   \<and> distinct (map stop (leftAt (example_trip_at_M 6000 (Some 0))))
   \<and> length (filter (\<lambda>e. stop e = ''M'') (leftAt (example_trip_at_M 6000 (Some 0)))) = 1"
proof -
  let ?first = "updateBusLocation_draft1 example_utils 5000 True example_store ''bus1'' 10 (41 / 2)"
  let ?second = "updateBusLocation_draft1 example_utils 6000 True (store_after ?first)
                   ''bus1'' 10 (41 / 2)"
  let ?M = "stop_at ''M'' 10 (41 / 2)"
  have d: "distinct (map stop (leftAt (new_trip ''bus1'' ''r1'' 1000)))"
    by (simp add: new_trip_def)
  have d1: "distinct (map stop (leftAt (example_trip_at_M 5000 None)))"
    by (simp add: example_trip_at_M_def)
  have r1: "result ?first = Inr (Some (example_trip_at_M 5000 None))"
    by (simp add: example_first_update)
  have r2: "result ?second = Inr (Some (example_trip_at_M 6000 (Some 0)))"
    by (simp add: example_second_update)
  have M: "stop_id ?M = ''M''" "stop_id ?M \<notin> stop ` set (leftAt (new_trip ''bus1'' ''r1'' 1000))"
    by (simp_all add: stop_at_def new_trip_def)
  note inst = stop_passage_idempotent
    [where ?t1.0 = 5000 and ?t2.0 = 6000 and ?w1.0 = True and ?w2.0 = True and U = example_utils
       and db = example_store and i = "''bus1''" and ?a1.0 = 10 and ?b1.0 = "41 / 2"
       and ?a2.0 = 10 and ?b2.0 = "41 / 2" and s = ?M and sb = "new_trip ''bus1'' ''r1'' 1000"
       and ?sb1.0 = "example_trip_at_M 5000 None" and ?sb2.0 = "example_trip_at_M 6000 (Some 0)"
       and now = 6000 and w = True and a = 10 and b = "41 / 2"
       and sb' = "example_trip_at_M 5000 None"
       and ?uf1.0 = "example_fields_at_M 5000 None" and ?l1.0 = "[\<lparr> stop = ''M'', time = 5000 \<rparr>]"
       and ?uf2.0 = "example_fields_at_M 6000 (Some 0)" and ?l2.0 = "[\<lparr> stop = ''M'', time = 5000 \<rparr>]"]
  from inst r1 r2 example_draft1_fields [of 5000] example_second_fields example_findById d
  have twice: "leftAt (example_trip_at_M 5000 None) =
          (if stop_id ?M \<in> stop ` set (leftAt (new_trip ''bus1'' ''r1'' 1000))
           then leftAt (new_trip ''bus1'' ''r1'' 1000)
           else leftAt (new_trip ''bus1'' ''r1'' 1000) @ [\<lparr> stop = stop_id ?M, time = 5000 \<rparr>])
        \<and> leftAt (example_trip_at_M 6000 (Some 0)) = leftAt (example_trip_at_M 5000 None)
        \<and> length (filter (\<lambda>e. stop e = stop_id ?M) (leftAt (example_trip_at_M 6000 (Some 0)))) = 1"
    by blast
  from twice r1 r2 d d1 M show ?thesis by (simp add: new_trip_def)
qed

text \<open>
  The claim as stated fails where two stops are within the threshold of the fix: M and N
  share one position, both updates are within the threshold of both, and one stop is
  recorded. No entry for N is appended.
\<close>

theorem stop_passage_counterexample:
  "withinThreshold example_utils THRESHOLD_DISTANCE_draft1 10 (41 / 2) (stop_at ''N'' 10 (41 / 2))
     = Inr True
   \<and> stop_at ''N'' 10 (41 / 2) \<in> set (BusStop_find example_store [''A'', ''M'', ''N'', ''B''])
   \<and> stop_log example_store ''bus1'' = []
   \<and> stop_log (store_after (updateBusLocation_draft1 example_utils 6000 True
         (store_after (updateBusLocation_draft1 example_utils 5000 True example_store
            ''bus1'' 10 (41 / 2))) ''bus1'' 10 (41 / 2))) ''bus1'' = [''M'']
   \<and> count_list (stop_log (store_after (updateBusLocation_draft1 example_utils 6000 True
         (store_after (updateBusLocation_draft1 example_utils 5000 True example_store
            ''bus1'' 10 (41 / 2))) ''bus1'' 10 (41 / 2))) ''bus1'') ''N'' = 0"
proof -
  have "withinThreshold example_utils THRESHOLD_DISTANCE_draft1 10 (41 / 2)
          (stop_at ''N'' 10 (41 / 2)) = Inr True"
    by (simp add: withinThreshold_def THRESHOLD_DISTANCE_draft1_def example_defs)
  moreover have "stop_at ''N'' 10 (41 / 2) \<in> set (BusStop_find example_store [''A'', ''M'', ''N'', ''B''])"
    by (simp add: BusStop_find_def example_store_def example_stops_def stop_at_def)
  moreover have "stop_log example_store ''bus1'' = []"
    by (simp add: stop_log_def example_findById new_trip_def)
  moreover have "stop_log (store_after (updateBusLocation_draft1 example_utils 6000 True
         (store_after (updateBusLocation_draft1 example_utils 5000 True example_store
            ''bus1'' 10 (41 / 2))) ''bus1'' 10 (41 / 2))) ''bus1'' = [''M'']"
    unfolding example_second_update
    by (simp add: stop_log_def findById_def example_store_def example_trip_at_M_def new_trip_def)
  ultimately show ?thesis by simp
qed


text \<open>
  C4, as the first draft has it. An update that returns a trip has selected at most one
  of the route's stops, one whose distance to the fix is below the threshold. Only that
  stop is recorded: one entry with the time of the update is appended when no entry
  refers to it, and nothing otherwise; when no stop is selected, none of the route's
  stops is below the threshold and \<^verbatim>\<open>leftAt\<close> is unchanged. So an update appends at
  most one entry, however many stops are below the threshold.
\<close>

theorem one_stop_per_update:
  assumes "result (updateBusLocation_draft1 U now w db i a b) = Inr (Some sb')"
    and "findById db i = Some sb"
  shows "length (leftAt sb') \<le> length (leftAt sb) + 1
         \<and> (\<exists>uf l p rt refs.
               updateBusLocation_draft1_fields U now db i a b = Inr (uf, l, p)
               \<and> populate_route db (route sb) = Some rt \<and> stops rt = Some refs
               \<and> (case p of
                     None \<Rightarrow>
                       (\<forall>y\<in>set (BusStop_find db refs).
                          withinThreshold U THRESHOLD_DISTANCE_draft1 a b y = Inr False)
                       \<and> leftAt sb' = leftAt sb
                   | Some s \<Rightarrow>
                       s \<in> set (BusStop_find db refs)
                       \<and> withinThreshold U THRESHOLD_DISTANCE_draft1 a b s = Inr True
                       \<and> leftAt sb' =
                           (if stop_id s \<in> stop ` set (leftAt sb) then leftAt sb
                            else leftAt sb @ [\<lparr> stop = stop_id s, time = now \<rparr>])))"
proof -
  from updateBusLocation_draft1_Inr [OF assms(1)] assms(2)
  obtain uf newLeftAt p where
    f: "updateBusLocation_draft1_fields U now db i a b = Inr (uf, newLeftAt, p)"
    and sb': "sb' = (apply_set uf sb) \<lparr> leftAt := newLeftAt \<rparr>"
    by auto
  from updateBusLocation_draft1_fields_Inr [OF f] assms(2)
  obtain rt refs where
    rt: "populate_route db (route sb) = Some rt" "stops rt = Some refs"
    and p: "array_find (withinThreshold U THRESHOLD_DISTANCE_draft1 a b) (BusStop_find db refs) = Inr p"
    and l: "newLeftAt = record_passage now (leftAt sb) p"
    by auto
  have log: "leftAt sb' = record_passage now (leftAt sb) p"
    by (simp add: sb' l)
  have len: "length (leftAt sb') \<le> length (leftAt sb) + 1"
    by (simp add: log record_passage_unfold split: option.splits)
  have "case p of
          None \<Rightarrow>
            (\<forall>y\<in>set (BusStop_find db refs).
               withinThreshold U THRESHOLD_DISTANCE_draft1 a b y = Inr False)
            \<and> leftAt sb' = leftAt sb
        | Some s \<Rightarrow>
            s \<in> set (BusStop_find db refs)
            \<and> withinThreshold U THRESHOLD_DISTANCE_draft1 a b s = Inr True
            \<and> leftAt sb' =
                (if stop_id s \<in> stop ` set (leftAt sb) then leftAt sb
                 else leftAt sb @ [\<lparr> stop = stop_id s, time = now \<rparr>])"
  proof (cases p)
    case None
    with p array_find_None [of _ "BusStop_find db refs"] log show ?thesis
      by (simp add: record_passage_unfold)
  next
    case (Some s)
    from p Some array_find_Some [of _ "BusStop_find db refs" s]
    obtain pre post where "BusStop_find db refs = pre @ s # post"
      and "withinThreshold U THRESHOLD_DISTANCE_draft1 a b s = Inr True" by blast
    with Some log show ?thesis
      by (simp add: record_passage_unfold)
  qed
  with len f rt show ?thesis by blast
qed

text \<open>The example trip at the position of M: one entry, for M, is appended.\<close>

theorem one_stop_per_update_witness:
  "result (updateBusLocation_draft1 example_utils 5000 True example_store ''bus1'' 10 (41 / 2))
     = Inr (Some (example_trip_at_M 5000 None))
   \<and> findById example_store ''bus1'' = Some (new_trip ''bus1'' ''r1'' 1000)
   \<and> length (leftAt (example_trip_at_M 5000 None))
       \<le> length (leftAt (new_trip ''bus1'' ''r1'' 1000)) + 1
   \<and> (\<exists>uf l p rt refs.
         updateBusLocation_draft1_fields example_utils 5000 example_store ''bus1'' 10 (41 / 2)
           = Inr (uf, l, p)
         \<and> populate_route example_store (route (new_trip ''bus1'' ''r1'' 1000)) = Some rt
         \<and> stops rt = Some refs
         \<and> (case p of
               None \<Rightarrow>
                 (\<forall>y\<in>set (BusStop_find example_store refs).
                    withinThreshold example_utils THRESHOLD_DISTANCE_draft1 10 (41 / 2) y = Inr False)
                 \<and> leftAt (example_trip_at_M 5000 None) = leftAt (new_trip ''bus1'' ''r1'' 1000)
             | Some s \<Rightarrow>
                 s \<in> set (BusStop_find example_store refs)
                 \<and> withinThreshold example_utils THRESHOLD_DISTANCE_draft1 10 (41 / 2) s = Inr True
                 \<and> leftAt (example_trip_at_M 5000 None) =
                     (if stop_id s \<in> stop ` set (leftAt (new_trip ''bus1'' ''r1'' 1000))
                      then leftAt (new_trip ''bus1'' ''r1'' 1000)
                      else leftAt (new_trip ''bus1'' ''r1'' 1000)
                             @ [\<lparr> stop = stop_id s, time = 5000 \<rparr>])))"
proof -
  have r: "result (updateBusLocation_draft1 example_utils 5000 True example_store ''bus1'' 10 (41 / 2))
     = Inr (Some (example_trip_at_M 5000 None))"
    by (simp add: example_first_update)
  from one_stop_per_update [OF r example_findById] r example_findById
  show ?thesis by blast
qed

text \<open>
  The claim as stated fails there: M and N are both below the threshold and neither is
  logged, and the update appends one entry, not two. N is not appended.
\<close>

theorem one_stop_per_update_counterexample:
  "withinThreshold example_utils THRESHOLD_DISTANCE_draft1 10 (41 / 2) (stop_at ''M'' 10 (41 / 2))
     = Inr True
   \<and> withinThreshold example_utils THRESHOLD_DISTANCE_draft1 10 (41 / 2) (stop_at ''N'' 10 (41 / 2))
     = Inr True
   \<and> BusStop_find example_store [''A'', ''M'', ''N'', ''B'']
     = [stop_at ''A'' 10 20, stop_at ''M'' 10 (41 / 2), stop_at ''N'' 10 (41 / 2), stop_at ''B'' 10 21]
   \<and> stop_log example_store ''bus1'' = []
   \<and> stop_log (store_after (updateBusLocation_draft1 example_utils 5000 True example_store
         ''bus1'' 10 (41 / 2))) ''bus1'' = [''M'']
   \<and> ''N'' \<notin> set (stop_log (store_after (updateBusLocation_draft1 example_utils 5000 True
         example_store ''bus1'' 10 (41 / 2))) ''bus1'')"
proof -
  have "withinThreshold example_utils THRESHOLD_DISTANCE_draft1 10 (41 / 2)
          (stop_at ''M'' 10 (41 / 2)) = Inr True"
    by (simp add: withinThreshold_def THRESHOLD_DISTANCE_draft1_def example_defs)
  moreover have "withinThreshold example_utils THRESHOLD_DISTANCE_draft1 10 (41 / 2)
          (stop_at ''N'' 10 (41 / 2)) = Inr True"
    by (simp add: withinThreshold_def THRESHOLD_DISTANCE_draft1_def example_defs)
  moreover have "BusStop_find example_store [''A'', ''M'', ''N'', ''B'']
     = [stop_at ''A'' 10 20, stop_at ''M'' 10 (41 / 2), stop_at ''N'' 10 (41 / 2), stop_at ''B'' 10 21]"
    by (simp add: BusStop_find_def example_store_def example_stops_def stop_at_def)
  moreover have "stop_log example_store ''bus1'' = []"
    by (simp add: stop_log_def example_findById new_trip_def)
  moreover have "stop_log (store_after (updateBusLocation_draft1 example_utils 5000 True
         example_store ''bus1'' 10 (41 / 2))) ''bus1'' = [''M'']"
    by (simp add: stop_log_def example_first_found example_trip_at_M_def)
  ultimately show ?thesis by simp
qed

section \<open>Validation of a position update\<close>

text \<open>
  The presence check of line 27: a \<^verbatim>\<open>locationUpdate\<close> whose scheduledBusId is
  missing or empty, or whose latitude or longitude is missing, is answered with
  \<^verbatim>\<open>{ error: "Invalid data format" }\<close> and the store is left as it was, whatever
  \<^verbatim>\<open>updateBusLocation\<close> the module has: it is not called.
\<close>

lemma missing_fields_rejected:
  "falsy_str sid \<or> mla = None \<or> mlo = None \<longrightarrow>
     on_message upd db (LocationUpdate sid mla mlo) = (ErrorReply ''Invalid data format'', db)"
  by (cases sid; cases mla; cases mlo) (auto simp: falsy_str_def)

text \<open>A message for the example trip without latitude, sent to the first draft.\<close>

lemma missing_latitude_rejected:
  "\<not> falsy_str (Some ''bus1'')
   \<and> on_message (for_numbers example_nonNumber (updateBusLocation_draft1 example_utils 5000 True))
        example_store (LocationUpdate (Some ''bus1'') None (Some (Number 20)))
       = (ErrorReply ''Invalid data format'', example_store)"
proof -
  have "\<not> falsy_str (Some ''bus1'')" by (simp add: falsy_str_def)
  moreover from missing_fields_rejected
    [of "Some ''bus1''" None "Some (Number 20)"
       "for_numbers example_nonNumber (updateBusLocation_draft1 example_utils 5000 True)"
       example_store]
  have "on_message (for_numbers example_nonNumber (updateBusLocation_draft1 example_utils 5000 True))
        example_store (LocationUpdate (Some ''bus1'') None (Some (Number 20)))
       = (ErrorReply ''Invalid data format'', example_store)"
    by blast
  ultimately show ?thesis by blast
qed

lemma example_out_of_range_fields:
  "updateBusLocation_draft1_fields example_utils 5000 example_store ''bus1'' 91 20 =
     Inr (\<lparr> set_latitude = 91, set_longitude = 20, set_lastUpdated = 5000,
            set_distanceTraveled = 8991, set_distanceRemaining = 9102,
            set_journeyCompletion = 100, set_speed = None \<rparr>, [], None)"
  by (simp add: updateBusLocation_draft1_fields_def assemble_updateFields_def toFixed2_def Let_def
      example_defs lookup_defs)

text \<open>
  C5 at latitude 91. The schema declares latitude between -90 and 90, but the handler
  checks presence only and the write runs without validators. \<^verbatim>\<open>src/index.js\<close>
  answers the message with the generic error it gives every update, the one at latitude
  10 included; the first draft accepts it, broadcasts, and stores latitude 91.
\<close>

theorem out_of_range_update_stored:
  "on_message (updateBusLocation_received example_utils 5000) example_store
     (LocationUpdate (Some ''bus1'') (Some (Number 91)) (Some (Number 20)))
     = (ErrorReply ''Failed to process request'', example_store)
   \<and> on_message (updateBusLocation_received example_utils 5000) example_store
     (LocationUpdate (Some ''bus1'') (Some (Number 10)) (Some (Number 20)))
     = (ErrorReply ''Failed to process request'', example_store)
   \<and> fst (on_message (for_numbers example_nonNumber (updateBusLocation_draft1 example_utils 5000 True))
            example_store (LocationUpdate (Some ''bus1'') (Some (Number 91)) (Some (Number 20))))
     = BusUpdate [apply_set \<lparr> set_latitude = 91, set_longitude = 20, set_lastUpdated = 5000,
                     set_distanceTraveled = 8991, set_distanceRemaining = 9102,
                     set_journeyCompletion = 100, set_speed = None \<rparr> (new_trip ''bus1'' ''r1'' 1000)]
   \<and> map_option (latitude \<circ> location)
        (findById (snd (on_message
            (for_numbers example_nonNumber (updateBusLocation_draft1 example_utils 5000 True))
            example_store (LocationUpdate (Some ''bus1'') (Some (Number 91)) (Some (Number 20)))))
          ''bus1'')
     = Some (Some 91)"
proof -
  have idx: "\<And>ca cb. on_message (updateBusLocation_received example_utils 5000) example_store
     (LocationUpdate (Some ''bus1'') (Some ca) (Some cb))
     = (ErrorReply ''Failed to process request'', example_store)"
    by (simp add: updateBusLocation_received_result updateBusLocation_received_store)
  have run: "updateBusLocation_draft1 example_utils 5000 True example_store ''bus1'' 91 20 =
      \<lparr> logged = [],
        result = Inr (Some (apply_set \<lparr> set_latitude = 91, set_longitude = 20, set_lastUpdated = 5000,
                     set_distanceTraveled = 8991, set_distanceRemaining = 9102,
                     set_journeyCompletion = 100, set_speed = None \<rparr> (new_trip ''bus1'' ''r1'' 1000))),
        store_after = example_store \<lparr> scheduledBuses :=
          [apply_set \<lparr> set_latitude = 91, set_longitude = 20, set_lastUpdated = 5000,
                     set_distanceTraveled = 8991, set_distanceRemaining = 9102,
                     set_journeyCompletion = 100, set_speed = None \<rparr> (new_trip ''bus1'' ''r1'' 1000)] \<rparr> \<rparr>"
    unfolding updateBusLocation_draft1_run [OF example_out_of_range_fields example_findById]
    by (simp add: apply_set_def new_trip_def example_store_def)
  have msg: "on_message (for_numbers example_nonNumber (updateBusLocation_draft1 example_utils 5000 True))
            example_store (LocationUpdate (Some ''bus1'') (Some (Number 91)) (Some (Number 20))) =
      (BusUpdate [apply_set \<lparr> set_latitude = 91, set_longitude = 20, set_lastUpdated = 5000,
                     set_distanceTraveled = 8991, set_distanceRemaining = 9102,
                     set_journeyCompletion = 100, set_speed = None \<rparr> (new_trip ''bus1'' ''r1'' 1000)],
       example_store \<lparr> scheduledBuses :=
          [apply_set \<lparr> set_latitude = 91, set_longitude = 20, set_lastUpdated = 5000,
                     set_distanceTraveled = 8991, set_distanceRemaining = 9102,
                     set_journeyCompletion = 100, set_speed = None \<rparr> (new_trip ''bus1'' ''r1'' 1000)] \<rparr>)"
    by (simp add: for_numbers_def run)
  show ?thesis
    unfolding msg idx
    by (simp add: findById_def apply_set_def new_trip_def)
qed

section \<open>The speed estimate and the stored speed\<close>

text \<open>
  C6. With \<^verbatim>\<open>calculateSpeed\<close> as the spec describes it: the speed is absent exactly
  when the previous latitude, longitude or time is absent or the current time does not
  exceed the previous time; otherwise it is the distance between the two fixes divided
  by the elapsed hours. At the call site of \<^verbatim>\<open>src/index.js\<close> (lines 133 to 135 and
  161) the previous fix is the trip's stored location and the result is the
  \<^verbatim>\<open>speed\<close> key of \<^verbatim>\<open>updateFields\<close>.
\<close>

theorem speed_absent_iff:
  "(calculateSpeed_spec hav now pLat pLng pTime a b = None \<longleftrightarrow>
      pLat = None \<or> pLng = None \<or> pTime = None \<or> (\<exists>t. pTime = Some t \<and> now \<le> t))
   \<and> (pLat = Some x \<and> pLng = Some y \<and> pTime = Some t \<and> t < now \<longrightarrow>
        calculateSpeed_spec hav now pLat pLng pTime a b =
          Some (hav x y a b / (real_of_int (now - t) / 3600000)))
   \<and> (updateBusLocation_fields (utils_with hav) now db i a b = Inr (uf, sd)
        \<and> findById db i = Some sb \<longrightarrow>
        set_speed uf =
          calculateSpeed_spec hav now (latitude (location sb)) (longitude (location sb))
            (lastUpdated (location sb)) a b)"
proof (intro conjI impI)
  show "calculateSpeed_spec hav now pLat pLng pTime a b = None \<longleftrightarrow>
      pLat = None \<or> pLng = None \<or> pTime = None \<or> (\<exists>t. pTime = Some t \<and> now \<le> t)"
    by (cases pLat; cases pLng; cases pTime) (simp_all add: calculateSpeed_spec_def)
next
  assume "pLat = Some x \<and> pLng = Some y \<and> pTime = Some t \<and> t < now"
  then show "calculateSpeed_spec hav now pLat pLng pTime a b =
          Some (hav x y a b / (real_of_int (now - t) / 3600000))"
    by (simp add: calculateSpeed_spec_def)
next
  assume h: "updateBusLocation_fields (utils_with hav) now db i a b = Inr (uf, sd)
        \<and> findById db i = Some sb"
  from updateBusLocation_fields_Inr [of "utils_with hav" now db i a b uf sd] h
  obtain org dst totalDist where
    "uf = assemble_updateFields (utils_with hav) now (location sb) org dst totalDist a b"
    by auto
  then show "set_speed uf =
          calculateSpeed_spec hav now (latitude (location sb)) (longitude (location sb))
            (lastUpdated (location sb)) a b"
    by (simp add: assemble_updateFields_speed utils_with_def)
qed

text \<open>
  The example trip has no previous fix: no speed. A trip last seen at M at time 5000 and
  seen at B at time 3605000, an hour later and 55.5 km on: 55.5 km/h.
\<close>

theorem speed_absent_iff_witness:
  "updateBusLocation_fields (utils_with flat_distance) 5000 example_store ''bus1'' 10 (41 / 2)
     = Inr (example_fields_at_M 5000 None, example_stops)
   \<and> findById example_store ''bus1'' = Some (new_trip ''bus1'' ''r1'' 1000)
   \<and> set_speed (example_fields_at_M 5000 None) = None
   \<and> calculateSpeed_spec flat_distance 5000 None None None 10 (41 / 2) = None
   \<and> (5000::int) < 3605000
   \<and> calculateSpeed_spec flat_distance 3605000 (Some 10) (Some (41 / 2)) (Some 5000) 10 21
       = Some (111 / 2)"
proof -
  have f: "updateBusLocation_fields (utils_with flat_distance) 5000 example_store ''bus1'' 10 (41 / 2)
     = Inr (example_fields_at_M 5000 None, example_stops)"
    using example_fields [of 5000] by (simp add: example_utils_def)
  have t: "(5000::int) < 3605000" by simp
  note inst = speed_absent_iff
    [where hav = flat_distance and now = 3605000 and pLat = "Some 10" and pLng = "Some (41 / 2)"
       and pTime = "Some 5000" and a = 10 and b = 21 and x = 10 and y = "41 / 2" and t = 5000]
  from inst t have moving:
    "calculateSpeed_spec flat_distance 3605000 (Some 10) (Some (41 / 2)) (Some 5000) 10 21
       = Some (flat_distance 10 (41 / 2) 10 21 / (real_of_int (3605000 - 5000) / 3600000))"
    by blast
  from speed_absent_iff
    [where hav = flat_distance and now = 5000 and pLat = None and pLng = None and pTime = None
       and a = 10 and b = "41 / 2" and db = example_store and i = "''bus1''"
       and uf = "example_fields_at_M 5000 None" and sd = example_stops
       and sb = "new_trip ''bus1'' ''r1'' 1000"]
    f example_findById
  have still: "calculateSpeed_spec flat_distance 5000 None None None 10 (41 / 2) = None"
    and key: "set_speed (example_fields_at_M 5000 None) =
          calculateSpeed_spec flat_distance 5000
            (latitude (location (new_trip ''bus1'' ''r1'' 1000)))
            (longitude (location (new_trip ''bus1'' ''r1'' 1000)))
            (lastUpdated (location (new_trip ''bus1'' ''r1'' 1000))) 10 (41 / 2)"
    by blast+
  from key still have "set_speed (example_fields_at_M 5000 None) = None"
    by (simp add: new_trip_def)
  with f example_findById still t moving show ?thesis
    by (simp add: flat_distance_def)
qed

section \<open>The stored speed\<close>

lemma apply_set_progress:
  "distanceTraveled (apply_set uf t) = Some (set_distanceTraveled uf)
   \<and> distanceRemaining (apply_set uf t) = Some (set_distanceRemaining uf)
   \<and> journeyCompletion (apply_set uf t) = Some (set_journeyCompletion uf)
   \<and> location (apply_set uf t) =
       \<lparr> latitude = Some (set_latitude uf), longitude = Some (set_longitude uf),
         lastUpdated = Some (set_lastUpdated uf) \<rparr>"
  by (simp add: apply_set_def)

lemma apply_set_speed:
  "speed (apply_set uf t) = (case set_speed uf of None \<Rightarrow> speed t | Some v \<Rightarrow> Some v)"
  by (simp add: apply_set_def)

lemma assemble_updateFields_position:
  "set_latitude (assemble_updateFields U now loc org dst totalDist a b) = a
   \<and> set_longitude (assemble_updateFields U now loc org dst totalDist a b) = b
   \<and> set_lastUpdated (assemble_updateFields U now loc org dst totalDist a b) = now"
  by (simp add: assemble_updateFields_def Let_def)

text \<open>
  C7. When \<^verbatim>\<open>calculateSpeed\<close> returns null for the trip's stored location and the
  new fix, the key \<^verbatim>\<open>speed\<close> is not among the keys set: in \<^verbatim>\<open>src/index.js\<close> the
  assembled \<^verbatim>\<open>updateFields\<close> has no speed, and \<^verbatim>\<open>$set\<close> of those keys on any trip
  keeps the trip's speed while setting the three progress values; in the first draft,
  whose write is reached, the trip stored and returned has the speed it had before, the
  newly derived progress values, and the new position and time.
\<close>

theorem absent_speed_keeps_stored_speed:
  "(updateBusLocation_fields U now db i a b = Inr (uf, sd) \<and> findById db i = Some sb
      \<and> calculateSpeed U now (latitude (location sb)) (longitude (location sb))
           (lastUpdated (location sb)) a b = None
    \<longrightarrow> set_speed uf = None
        \<and> speed (apply_set uf t) = speed t
        \<and> distanceTraveled (apply_set uf t) = Some (set_distanceTraveled uf)
        \<and> distanceRemaining (apply_set uf t) = Some (set_distanceRemaining uf)
        \<and> journeyCompletion (apply_set uf t) = Some (set_journeyCompletion uf))
   \<and> (result (updateBusLocation_draft1 U now w db i a b) = Inr (Some sb') \<and> findById db i = Some sb
      \<and> calculateSpeed U now (latitude (location sb)) (longitude (location sb))
           (lastUpdated (location sb)) a b = None
    \<longrightarrow> speed sb' = speed sb
        \<and> findById (store_after (updateBusLocation_draft1 U now w db i a b)) i = Some sb'
        \<and> location sb' = \<lparr> latitude = Some a, longitude = Some b, lastUpdated = Some now \<rparr>
        \<and> (\<exists>uf' l p. updateBusLocation_draft1_fields U now db i a b = Inr (uf', l, p)
              \<and> distanceTraveled sb' = Some (set_distanceTraveled uf')
              \<and> distanceRemaining sb' = Some (set_distanceRemaining uf')
              \<and> journeyCompletion sb' = Some (set_journeyCompletion uf')))"
proof (intro conjI impI; (elim conjE)?)
  assume f: "updateBusLocation_fields U now db i a b = Inr (uf, sd)"
    and sb: "findById db i = Some sb"
    and none: "calculateSpeed U now (latitude (location sb)) (longitude (location sb))
           (lastUpdated (location sb)) a b = None"
  from updateBusLocation_fields_Inr [OF f] sb
  obtain org dst totalDist where
    "uf = assemble_updateFields U now (location sb) org dst totalDist a b" by auto
  with none show key: "set_speed uf = None" by (simp add: assemble_updateFields_speed)
  then show "speed (apply_set uf t) = speed t" by (simp add: apply_set_speed)
  show "distanceTraveled (apply_set uf t) = Some (set_distanceTraveled uf)"
    "distanceRemaining (apply_set uf t) = Some (set_distanceRemaining uf)"
    "journeyCompletion (apply_set uf t) = Some (set_journeyCompletion uf)"
    by (simp_all add: apply_set_progress)
next
  assume ok: "result (updateBusLocation_draft1 U now w db i a b) = Inr (Some sb')"
    and sb: "findById db i = Some sb"
    and none: "calculateSpeed U now (latitude (location sb)) (longitude (location sb))
           (lastUpdated (location sb)) a b = None"
  from updateBusLocation_draft1_Inr [OF ok] sb
  obtain uf' l p where
    f: "updateBusLocation_draft1_fields U now db i a b = Inr (uf', l, p)"
    and sb': "sb' = (apply_set uf' sb) \<lparr> leftAt := l \<rparr>"
    and st: "store_after (updateBusLocation_draft1 U now w db i a b) =
               db \<lparr> scheduledBuses :=
                 replace_first i (\<lambda>x. (apply_set uf' x) \<lparr> leftAt := l \<rparr>) (scheduledBuses db) \<rparr>"
    by auto
  from updateBusLocation_draft1_fields_Inr [OF f] sb
  obtain org dst totalDist where
    uf': "uf' = assemble_updateFields U now (location sb) org dst totalDist a b" by auto
  with none have key: "set_speed uf' = None" by (simp add: assemble_updateFields_speed)
  then show "speed sb' = speed sb" by (simp add: sb' apply_set_speed)
  show "findById (store_after (updateBusLocation_draft1 U now w db i a b)) i = Some sb'"
    by (simp add: st findById_after_write sb sb')
  show "location sb' = \<lparr> latitude = Some a, longitude = Some b, lastUpdated = Some now \<rparr>"
    by (simp add: sb' apply_set_progress uf' assemble_updateFields_position)
  have "distanceTraveled sb' = Some (set_distanceTraveled uf')
      \<and> distanceRemaining sb' = Some (set_distanceRemaining uf')
      \<and> journeyCompletion sb' = Some (set_journeyCompletion uf')"
    by (simp add: sb' apply_set_progress)
  with f show "\<exists>uf' l p. updateBusLocation_draft1_fields U now db i a b = Inr (uf', l, p)
              \<and> distanceTraveled sb' = Some (set_distanceTraveled uf')
              \<and> distanceRemaining sb' = Some (set_distanceRemaining uf')
              \<and> journeyCompletion sb' = Some (set_journeyCompletion uf')"
    by blast
qed


lemma moving_findById:
  "findById moving_store ''bus1'' = Some (example_trip_at_M 5000 (Some 40))"
  by (simp add: findById_def moving_store_def example_trip_at_M_def new_trip_def)

lemma moving_speed_absent:
  "calculateSpeed example_utils 4000
     (latitude (location (example_trip_at_M 5000 (Some 40))))
     (longitude (location (example_trip_at_M 5000 (Some 40))))
     (lastUpdated (location (example_trip_at_M 5000 (Some 40)))) 10 21 = None"
  by (simp add: example_utils_def utils_with_def calculateSpeed_spec_def example_trip_at_M_def)

lemma moving_fields:
  "updateBusLocation_fields example_utils 4000 moving_store ''bus1'' 10 21 =
     Inr (example_fields_at_B 4000 None, example_stops)"
  by (simp add: updateBusLocation_fields_def assemble_updateFields_def toFixed2_def Let_def
      moving_store_def example_trip_at_M_def example_fields_at_B_def example_defs lookup_defs)

lemma moving_draft1_fields:
  "updateBusLocation_draft1_fields example_utils 4000 moving_store ''bus1'' 10 21 =
     Inr (example_fields_at_B 4000 None,
          [\<lparr> stop = ''M'', time = 5000 \<rparr>, \<lparr> stop = ''B'', time = 4000 \<rparr>],
          Some (stop_at ''B'' 10 21))"
  by (simp add: updateBusLocation_draft1_fields_def assemble_updateFields_def toFixed2_def Let_def
      moving_store_def example_trip_at_M_def example_fields_at_B_def example_defs lookup_defs)

text \<open>
  The trip at M with speed 40, last seen at time 5000, reports from B with the clock at
  4000: no speed estimate. The stored speed stays 40 and the progress values are those of
  B.
\<close>

theorem absent_speed_keeps_stored_speed_witness:
  "updateBusLocation_fields example_utils 4000 moving_store ''bus1'' 10 21
     = Inr (example_fields_at_B 4000 None, example_stops)
   \<and> findById moving_store ''bus1'' = Some (example_trip_at_M 5000 (Some 40))
   \<and> speed (example_trip_at_M 5000 (Some 40)) = Some 40
   \<and> speed (apply_set (example_fields_at_B 4000 None) (example_trip_at_M 5000 (Some 40))) = Some 40
   \<and> distanceTraveled (apply_set (example_fields_at_B 4000 None) (example_trip_at_M 5000 (Some 40)))
       = Some 111
   \<and> (\<exists>sb'. result (updateBusLocation_draft1 example_utils 4000 True moving_store ''bus1'' 10 21)
          = Inr (Some sb')
        \<and> speed sb' = Some 40
        \<and> distanceTraveled sb' = Some 111 \<and> distanceRemaining sb' = Some 0
        \<and> journeyCompletion sb' = Some 100
        \<and> location sb' = \<lparr> latitude = Some 10, longitude = Some 21, lastUpdated = Some 4000 \<rparr>)"
proof -
  let ?sb = "example_trip_at_M 5000 (Some 40)"
  let ?uf = "example_fields_at_B 4000 None"
  let ?sb' = "(apply_set ?uf ?sb) \<lparr> leftAt := [\<lparr> stop = ''M'', time = 5000 \<rparr>, \<lparr> stop = ''B'', time = 4000 \<rparr>] \<rparr>"
  have r: "result (updateBusLocation_draft1 example_utils 4000 True moving_store ''bus1'' 10 21)
          = Inr (Some ?sb')"
    by (simp add: updateBusLocation_draft1_run [OF moving_draft1_fields moving_findById])
  have s: "speed ?sb = Some 40" by (simp add: example_trip_at_M_def)
  note inst = absent_speed_keeps_stored_speed
    [where U = example_utils and now = 4000 and db = moving_store and i = "''bus1''" and a = 10
       and b = 21 and uf = ?uf and sd = example_stops and sb = ?sb and t = ?sb and w = True
       and sb' = ?sb']
  from inst moving_fields moving_findById moving_speed_absent r
  have idx: "speed (apply_set ?uf ?sb) = speed ?sb
        \<and> distanceTraveled (apply_set ?uf ?sb) = Some (set_distanceTraveled ?uf)"
    and d1: "speed ?sb' = speed ?sb
        \<and> location ?sb' = \<lparr> latitude = Some 10, longitude = Some 21, lastUpdated = Some 4000 \<rparr>
        \<and> (\<exists>uf' l p. updateBusLocation_draft1_fields example_utils 4000 moving_store ''bus1'' 10 21
                = Inr (uf', l, p)
              \<and> distanceTraveled ?sb' = Some (set_distanceTraveled uf')
              \<and> distanceRemaining ?sb' = Some (set_distanceRemaining uf')
              \<and> journeyCompletion ?sb' = Some (set_journeyCompletion uf'))"
    by blast+
  from d1 moving_draft1_fields
  have vals: "distanceTraveled ?sb' = Some 111 \<and> distanceRemaining ?sb' = Some 0
      \<and> journeyCompletion ?sb' = Some 100"
    by (auto simp: example_fields_at_B_def)
  from idx have "distanceTraveled (apply_set ?uf ?sb) = Some 111"
    by (simp add: example_fields_at_B_def)
  with idx d1 vals r s moving_fields moving_findById show ?thesis by auto
qed

section \<open>Errors of a position update\<close>

lemma catch_rethrow_Inl:
  "catch_rethrow db (Inl m) =
     \<lparr> logged = [m], result = Inl ''Error updating bus location'', store_after = db \<rparr>"
  by (simp add: catch_rethrow_def)

lemma not_found_try:
  assumes "findById db i = None"
  shows "updateBusLocation_try U now db i a b = Inl ''Scheduled bus not found''"
    and "updateBusLocation_draft1_try U now w db i a b = Inl ''Scheduled bus not found''"
  using assms
  by (simp_all add: updateBusLocation_try_def updateBusLocation_fields_def
      updateBusLocation_checked_def
      updateBusLocation_draft1_try_def updateBusLocation_draft1_fields_def)

lemma route_incomplete_fields:
  assumes "findById db i = Some sb"
    and "populate_route db (route sb) = None
         \<or> (\<exists>rt. populate_route db (route sb) = Some rt
               \<and> (populate_stop db (origin rt) = None \<or> populate_stop db (destination rt) = None
                  \<or> stops rt = None \<or> falsy_num (totalDistance rt)))"
  shows "updateBusLocation_fields U now db i a b =
           Inl ''Route data is invalid or missing required details''"
    and "updateBusLocation_draft1_fields U now db i a b =
           Inl ''Route data is invalid or missing required details''"
proof -
  let ?R = "''Route data is invalid or missing required details''"
  have "updateBusLocation_fields U now db i a b = Inl ?R
      \<and> updateBusLocation_draft1_fields U now db i a b = Inl ?R"
  proof (cases "populate_route db (route sb)")
    case None
    with assms(1) show ?thesis
      by (simp add: updateBusLocation_fields_def updateBusLocation_checked_def
          updateBusLocation_draft1_fields_def)
  next
    case (Some rt)
    with assms(2) have bad: "populate_stop db (origin rt) = None
        \<or> populate_stop db (destination rt) = None \<or> stops rt = None
        \<or> falsy_num (totalDistance rt)" by simp
    show ?thesis
    proof (cases "populate_stop db (origin rt)")
      case None
      with assms(1) Some show ?thesis
        by (simp add: updateBusLocation_fields_def updateBusLocation_checked_def
            updateBusLocation_draft1_fields_def)
    next
      case org: (Some org)
      show ?thesis
      proof (cases "populate_stop db (destination rt)")
        case None
        with assms(1) Some org show ?thesis
          by (simp add: updateBusLocation_fields_def updateBusLocation_checked_def
            updateBusLocation_draft1_fields_def)
      next
        case dst: (Some dst)
        show ?thesis
        proof (cases "stops rt")
          case None
          with assms(1) Some org dst show ?thesis
            by (simp add: updateBusLocation_fields_def updateBusLocation_checked_def
            updateBusLocation_draft1_fields_def)
        next
          case refs: (Some refs)
          with bad org dst have "falsy_num (totalDistance rt)" by simp
          with assms(1) Some org dst refs show ?thesis
            by (cases "totalDistance rt")
               (simp_all add: updateBusLocation_fields_def updateBusLocation_checked_def
                  updateBusLocation_draft1_fields_def falsy_num_def)
        qed
      qed
    qed
  qed
  then show "updateBusLocation_fields U now db i a b = Inl ?R"
    and "updateBusLocation_draft1_fields U now db i a b = Inl ?R"
    by simp_all
qed

lemma route_incomplete_try:
  assumes "findById db i = Some sb"
    and "populate_route db (route sb) = None
         \<or> (\<exists>rt. populate_route db (route sb) = Some rt
               \<and> (populate_stop db (origin rt) = None \<or> populate_stop db (destination rt) = None
                  \<or> stops rt = None \<or> falsy_num (totalDistance rt)))"
  shows "updateBusLocation_try U now db i a b =
           Inl ''Route data is invalid or missing required details''"
    and "updateBusLocation_draft1_try U now w db i a b =
           Inl ''Route data is invalid or missing required details''"
  by (simp_all add: updateBusLocation_try_def updateBusLocation_draft1_try_def
      route_incomplete_fields [OF assms])

text \<open>
  C8, as the code has it. When no trip has the identifier, and when the trip's route is
  incomplete (the route, its origin or its destination does not resolve, the stop list is
  missing, or the total distance is missing or zero), \<^verbatim>\<open>updateBusLocation\<close> fails and
  the store is left as it was. The \<^verbatim>\<open>catch\<close> replaces the error thrown by
  \<^verbatim>\<open>Error("Error updating bus location")\<close> in both cases, and the handler answers
  both with \<^verbatim>\<open>{ error: "Failed to process request" }\<close>: the two cases differ only in
  the message logged. The same holds for the first draft.
\<close>

theorem not_found_and_route_incomplete:
  "(findById db i = None \<longrightarrow>
      updateBusLocation U now db i a b =
        \<lparr> logged = [''Scheduled bus not found''],
          result = Inl ''Error updating bus location'', store_after = db \<rparr>
      \<and> updateBusLocation_draft1 U now w db i a b =
        \<lparr> logged = [''Scheduled bus not found''],
          result = Inl ''Error updating bus location'', store_after = db \<rparr>)
   \<and> (findById db i = Some sb
       \<and> (populate_route db (route sb) = None
          \<or> (\<exists>rt. populate_route db (route sb) = Some rt
                \<and> (populate_stop db (origin rt) = None \<or> populate_stop db (destination rt) = None
                   \<or> stops rt = None \<or> falsy_num (totalDistance rt)))) \<longrightarrow>
      updateBusLocation U now db i a b =
        \<lparr> logged = [''Route data is invalid or missing required details''],
          result = Inl ''Error updating bus location'', store_after = db \<rparr>
      \<and> updateBusLocation_draft1 U now w db i a b =
        \<lparr> logged = [''Route data is invalid or missing required details''],
          result = Inl ''Error updating bus location'', store_after = db \<rparr>)
   \<and> (i \<noteq> [] \<and> (\<exists>e. result (upd db i ca cb) = Inl e) \<and> store_after (upd db i ca cb) = db \<longrightarrow>
      on_message upd db (LocationUpdate (Some i) (Some ca) (Some cb)) =
        (ErrorReply ''Failed to process request'', db))"
proof (intro conjI impI; (elim conjE)?)
  assume "findById db i = None"
  then show "updateBusLocation U now db i a b =
        \<lparr> logged = [''Scheduled bus not found''],
          result = Inl ''Error updating bus location'', store_after = db \<rparr>"
    and "updateBusLocation_draft1 U now w db i a b =
        \<lparr> logged = [''Scheduled bus not found''],
          result = Inl ''Error updating bus location'', store_after = db \<rparr>"
    by (simp_all add: updateBusLocation_def updateBusLocation_draft1_def not_found_try
        catch_rethrow_Inl)
next
  assume "findById db i = Some sb"
    and "populate_route db (route sb) = None
          \<or> (\<exists>rt. populate_route db (route sb) = Some rt
                \<and> (populate_stop db (origin rt) = None \<or> populate_stop db (destination rt) = None
                   \<or> stops rt = None \<or> falsy_num (totalDistance rt)))"
  then show "updateBusLocation U now db i a b =
        \<lparr> logged = [''Route data is invalid or missing required details''],
          result = Inl ''Error updating bus location'', store_after = db \<rparr>"
    and "updateBusLocation_draft1 U now w db i a b =
        \<lparr> logged = [''Route data is invalid or missing required details''],
          result = Inl ''Error updating bus location'', store_after = db \<rparr>"
    by (simp_all add: updateBusLocation_def updateBusLocation_draft1_def route_incomplete_try
        catch_rethrow_Inl)
next
  assume "i \<noteq> []" "\<exists>e. result (upd db i ca cb) = Inl e" "store_after (upd db i ca cb) = db"
  then show "on_message upd db (LocationUpdate (Some i) (Some ca) (Some cb)) =
        (ErrorReply ''Failed to process request'', db)"
    by (auto simp: Let_def)
qed

lemma incomplete_findById:
  "findById incomplete_store ''bus1'' = Some (new_trip ''bus1'' ''r1'' 1000)"
  by (simp add: findById_def incomplete_store_def example_store_def new_trip_def)

lemma incomplete_route:
  "populate_route incomplete_store (route (new_trip ''bus1'' ''r1'' 1000))
     = Some (example_route \<lparr> totalDistance := None \<rparr>)"
  by (simp add: populate_route_def incomplete_store_def example_store_def new_trip_def
      example_route_def)

lemma example_not_found: "findById example_store ''nobody'' = None"
  by (simp add: findById_def example_store_def new_trip_def)

text \<open>
  An identifier no trip has, and the trip whose route has no total distance: the same
  error thrown and the same answer, two different lines in the log.
\<close>

theorem not_found_and_route_incomplete_witness:
  "findById example_store ''nobody'' = None
   \<and> updateBusLocation example_utils 5000 example_store ''nobody'' 10 20 =
        \<lparr> logged = [''Scheduled bus not found''],
          result = Inl ''Error updating bus location'', store_after = example_store \<rparr>
   \<and> findById incomplete_store ''bus1'' = Some (new_trip ''bus1'' ''r1'' 1000)
   \<and> falsy_num (totalDistance (example_route \<lparr> totalDistance := None \<rparr>))
   \<and> updateBusLocation example_utils 5000 incomplete_store ''bus1'' 10 20 =
        \<lparr> logged = [''Route data is invalid or missing required details''],
          result = Inl ''Error updating bus location'', store_after = incomplete_store \<rparr>
   \<and> on_message (updateBusLocation_received example_utils 5000) incomplete_store
        (LocationUpdate (Some ''bus1'') (Some (Number 10)) (Some (Number 20))) =
        (ErrorReply ''Failed to process request'', incomplete_store)"
proof -
  have falsy: "falsy_num (totalDistance (example_route \<lparr> totalDistance := None \<rparr>))"
    by (simp add: falsy_num_def)
  have n: "''bus1'' \<noteq> []" by simp
  note inst1 = not_found_and_route_incomplete
    [where db = example_store and i = "''nobody''" and U = example_utils and now = 5000
       and a = 10 and b = 20]
  note inst2 = not_found_and_route_incomplete
    [where db = incomplete_store and i = "''bus1''" and U = example_utils and now = 5000
       and a = 10 and b = 20 and sb = "new_trip ''bus1'' ''r1'' 1000"
       and upd = "updateBusLocation_received example_utils 5000"
       and ca = "Number 10" and cb = "Number 20"]
  from inst1 example_not_found
  have a: "updateBusLocation example_utils 5000 example_store ''nobody'' 10 20 =
        \<lparr> logged = [''Scheduled bus not found''],
          result = Inl ''Error updating bus location'', store_after = example_store \<rparr>"
    by blast
  from inst2 incomplete_findById incomplete_route falsy
  have b: "updateBusLocation example_utils 5000 incomplete_store ''bus1'' 10 20 =
        \<lparr> logged = [''Route data is invalid or missing required details''],
          result = Inl ''Error updating bus location'', store_after = incomplete_store \<rparr>"
    by blast
  have rb: "updateBusLocation_received example_utils 5000 incomplete_store ''bus1''
              (Number 10) (Number 20)
            = updateBusLocation example_utils 5000 incomplete_store ''bus1'' 10 20"
    by (simp add: updateBusLocation_received_def for_numbers_def)
  from inst2 n b rb
  have c: "on_message (updateBusLocation_received example_utils 5000) incomplete_store
        (LocationUpdate (Some ''bus1'') (Some (Number 10)) (Some (Number 20))) =
        (ErrorReply ''Failed to process request'', incomplete_store)"
    by simp
  from a b c example_not_found incomplete_findById falsy show ?thesis by simp
qed

text \<open>
  The claim as stated fails there: the error thrown to the caller, and the answer sent,
  are the same for the unknown trip and for the incomplete route, in
  \<^verbatim>\<open>src/index.js\<close> and in the first draft.
\<close>

theorem same_error_counterexample:
  "result (updateBusLocation example_utils 5000 example_store ''nobody'' 10 20)
     = result (updateBusLocation example_utils 5000 incomplete_store ''bus1'' 10 20)
   \<and> result (updateBusLocation_draft1 example_utils 5000 True example_store ''nobody'' 10 20)
     = result (updateBusLocation_draft1 example_utils 5000 True incomplete_store ''bus1'' 10 20)
   \<and> fst (on_message (updateBusLocation_received example_utils 5000) example_store
            (LocationUpdate (Some ''nobody'') (Some (Number 10)) (Some (Number 20))))
     = fst (on_message (updateBusLocation_received example_utils 5000) incomplete_store
            (LocationUpdate (Some ''bus1'') (Some (Number 10)) (Some (Number 20))))
   \<and> fst (on_message (for_numbers example_nonNumber (updateBusLocation_draft1 example_utils 5000 True))
            example_store (LocationUpdate (Some ''nobody'') (Some (Number 10)) (Some (Number 20))))
     = fst (on_message (for_numbers example_nonNumber (updateBusLocation_draft1 example_utils 5000 True))
            incomplete_store (LocationUpdate (Some ''bus1'') (Some (Number 10)) (Some (Number 20))))"
proof -
  have d1: "updateBusLocation_draft1 example_utils 5000 True example_store ''nobody'' 10 20 =
        \<lparr> logged = [''Scheduled bus not found''],
          result = Inl ''Error updating bus location'', store_after = example_store \<rparr>"
    by (simp add: updateBusLocation_draft1_def not_found_try [OF example_not_found]
        catch_rethrow_Inl)
  have d2: "updateBusLocation_draft1 example_utils 5000 True incomplete_store ''bus1'' 10 20 =
        \<lparr> logged = [''Route data is invalid or missing required details''],
          result = Inl ''Error updating bus location'', store_after = incomplete_store \<rparr>"
    using route_incomplete_try(2) [OF incomplete_findById, of example_utils 5000 True 10 20]
      incomplete_route
    by (simp add: updateBusLocation_draft1_def catch_rethrow_Inl falsy_num_def)
  show ?thesis
    by (simp add: updateBusLocation_result updateBusLocation_store
        updateBusLocation_received_result updateBusLocation_received_store
        for_numbers_def d1 d2)
qed

section \<open>The stop query\<close>

lemma fleet_page:
  "paginate fleet_store 1 10 =
     [new_trip ''t01'' ''r1'' 1, new_trip ''t02'' ''r1'' 2, new_trip ''t03'' ''r1'' 3,
      new_trip ''t04'' ''r1'' 4, new_trip ''t05'' ''r1'' 5, new_trip ''t06'' ''r1'' 6,
      new_trip ''t07'' ''r1'' 7, new_trip ''t08'' ''r1'' 8, new_trip ''t09'' ''r1'' 9,
      new_trip ''t10'' ''r1'' 10]"
  by (simp add: paginate_def fleet_store_def new_trip_def)

lemma fleet_r1_misses_Z:
  "servesStop fleet_store ''Z'' (new_trip i ''r1'' t) = Inr False"
  by (simp add: servesStop_def populate_route_def populate_stop_def fleet_store_def new_trip_def
      example_route_def example_stops_def stop_at_def)

lemma fleet_r2_serves_Z:
  "servesStop fleet_store ''Z'' (new_trip i ''r2'' t) = Inr True"
  by (simp add: servesStop_def populate_route_def populate_stop_def fleet_store_def new_trip_def
      example_route_def example_stops_def stop_at_def)

text \<open>
  C9 at eleven trips. The handler takes the first page of ten of all trips and filters
  that page: the eleventh trip, the only one whose route serves stop Z, is in the store
  and passes the filter's own test, and the response to the query for Z is empty.
\<close>

theorem stop_query_misses_eleventh_trip:
  "new_trip ''t11'' ''r2'' 11 \<in> set (scheduledBuses fleet_store)
   \<and> servesStop fleet_store ''Z'' (new_trip ''t11'' ''r2'' 11) = Inr True
   \<and> on_message (updateBusLocation_received example_utils 5000) fleet_store (BusStopRequest (Some ''Z'') None)
     = (BusStopResponse [], fleet_store)"
proof -
  have "new_trip ''t11'' ''r2'' 11 \<in> set (scheduledBuses fleet_store)"
    by (simp add: fleet_store_def)
  moreover have "array_filter (servesStop fleet_store ''Z'') (paginate fleet_store 1 10) = Inr []"
    unfolding fleet_page by (simp add: fleet_r1_misses_Z)
  ultimately show ?thesis
    by (simp add: fleet_r2_serves_Z filter_by_status_def)
qed

section \<open>A failed write\<close>

text \<open>
  C10. \<^verbatim>\<open>updateBusLocation\<close> writes once, last. In the first draft, when that write
  fails the call fails and the store is as it was, and so it is after every failed call,
  whatever failed; the derived values were only in memory. In \<^verbatim>\<open>src/index.js\<close> the
  write is never reached and the store is never changed.
\<close>

theorem failed_write_leaves_store:
  "result (updateBusLocation_draft1 U now False db i a b) = Inl ''Error updating bus location''
   \<and> store_after (updateBusLocation_draft1 U now False db i a b) = db
   \<and> (result (updateBusLocation_draft1 U now w db i a b) = Inl e \<longrightarrow>
        store_after (updateBusLocation_draft1 U now w db i a b) = db)
   \<and> store_after (updateBusLocation U now db i a b) = db"
proof -
  have failed: "\<exists>m. updateBusLocation_draft1_try U now False db i a b = Inl m"
    by (cases "updateBusLocation_draft1_fields U now db i a b")
       (auto simp: updateBusLocation_draft1_try_def findByIdAndUpdate_def)
  have any: "result (updateBusLocation_draft1 U now w db i a b) = Inl e \<Longrightarrow>
        store_after (updateBusLocation_draft1 U now w db i a b) = db"
    by (cases "updateBusLocation_draft1_try U now w db i a b")
       (auto simp: updateBusLocation_draft1_def catch_rethrow_def)
  from failed any show ?thesis
    by (auto simp: updateBusLocation_draft1_def catch_rethrow_def updateBusLocation_store)
qed

text \<open>
  The example trip at M with the store refusing the write: the values were derived, the
  call fails, the store is the example store.
\<close>

theorem failed_write_leaves_store_witness:
  "updateBusLocation_draft1_fields example_utils 5000 example_store ''bus1'' 10 (41 / 2) =
     Inr (example_fields_at_M 5000 None, [\<lparr> stop = ''M'', time = 5000 \<rparr>],
          Some (stop_at ''M'' 10 (41 / 2)))
   \<and> result (updateBusLocation_draft1 example_utils 5000 False example_store ''bus1'' 10 (41 / 2))
       = Inl ''Error updating bus location''
   \<and> store_after (updateBusLocation_draft1 example_utils 5000 False example_store ''bus1'' 10 (41 / 2))
       = example_store"
proof -
  note inst = failed_write_leaves_store
    [where U = example_utils and now = 5000 and db = example_store and i = "''bus1''"
       and a = 10 and b = "41 / 2" and w = False and e = "''Error updating bus location''"]
  from inst
  have "result (updateBusLocation_draft1 example_utils 5000 False example_store ''bus1'' 10 (41 / 2))
       = Inl ''Error updating bus location''"
    and "result (updateBusLocation_draft1 example_utils 5000 False example_store ''bus1'' 10 (41 / 2))
       = Inl ''Error updating bus location'' \<longrightarrow>
      store_after (updateBusLocation_draft1 example_utils 5000 False example_store ''bus1'' 10 (41 / 2))
       = example_store"
    by blast+
  with example_draft1_fields [of 5000] show ?thesis by blast
qed

end
